theory Spec2Isabelle
  imports Main
begin

section \<open>Resource booking service: the model of \<open>Backers/index.js\<close>\<close>

text \<open>
  The service is an Express application over a PostgreSQL store. Every handler is modelled
  as a function from the store before the request to a response and the store after it;
  a statement that the store refuses raises, and the handler's \<open>catch\<close> block answers.
  Instants (JavaScript \<open>Date\<close> values, SQL timestamps, \<open>NOW()\<close>) are integers, in
  milliseconds since the epoch; the value of \<open>NOW()\<close> is an argument of each handler.
  Request bodies are typed: a text field is omitted (\<open>None\<close>) or a string, a numeric
  field is omitted or a whole number.
\<close>

subsection \<open>JavaScript built-ins\<close>

text \<open>
  The string methods and the date parser belong to the JavaScript runtime, not to the
  repository. The handlers take them from a record, so that every property below holds
  for whatever these built-ins compute.
\<close>

record runtime =
  js_toUpperCase :: "string \<Rightarrow> string"
  js_toLowerCase :: "string \<Rightarrow> string"
  js_trim :: "string \<Rightarrow> string"
  js_parse :: "string \<Rightarrow> int option"

text \<open>JavaScript truthiness of an optional string and of an optional number.\<close>

definition truthy_str :: "string option \<Rightarrow> bool" where
  "truthy_str v = (case v of None \<Rightarrow> False | Some s \<Rightarrow> s \<noteq> [])"

definition truthy_num :: "int option \<Rightarrow> bool" where
  "truthy_num v = (case v of None \<Rightarrow> False | Some n \<Rightarrow> n \<noteq> 0)"

text \<open>\<open>v || null\<close> for the optional columns of a booking.\<close>

definition str_or_null :: "string option \<Rightarrow> string option" where
  "str_or_null v = (if truthy_str v then v else None)"

definition num_or_null :: "int option \<Rightarrow> int option" where
  "num_or_null v = (if truthy_num v then v else None)"

text \<open>
  A datetime field of a body: omitted, a number of milliseconds, or a string.
  \<open>new Date\<close> of it is \<open>None\<close> for an invalid date; a number is a valid date within
  8.64e15 milliseconds of the epoch, a string when \<open>Date.parse\<close> reads it.
\<close>

datatype date_input = NoDate | DateNumber int | DateString string

definition truthy_date :: "date_input \<Rightarrow> bool" where
  "truthy_date v =
     (case v of NoDate \<Rightarrow> False | DateNumber n \<Rightarrow> n \<noteq> 0 | DateString s \<Rightarrow> s \<noteq> [])"

definition new_Date :: "runtime \<Rightarrow> date_input \<Rightarrow> int option" where
  "new_Date js v =
     (case v of
        NoDate \<Rightarrow> None
      | DateNumber n \<Rightarrow> if - 8640000000000000 \<le> n \<and> n \<le> 8640000000000000 then Some n else None
      | DateString s \<Rightarrow> js_parse js s)"

subsection \<open>Rows and the store\<close>

datatype booking_status = REQUEST | ONGOING | SUCCESS | CANCEL

text \<open>
  A row of \<open>resources\<close>. The first seven columns are the ones every \<open>RETURNING\<close> clause
  of the resource handlers lists; \<open>updated_at\<close> is written by the update statements only.
\<close>

record resource_row =
  r_id :: int
  r_kind :: string
  r_name :: string
  r_subcategory :: "string option"
  r_type :: "string option"
  r_quantity :: int
  r_status :: string

record resource = resource_row +
  r_updated_at :: "int option"

record booking =
  b_id :: int
  b_kind :: string
  b_resource_id :: int
  b_resource_name :: string
  b_start_dt :: int
  b_end_dt :: int
  b_quantity :: "int option"
  b_status :: booking_status
  b_requester_name :: "string option"
  b_requester_role :: "string option"
  b_purpose :: "string option"
  b_created_at :: int
  b_updated_at :: int
  b_started_at :: "int option"
  b_ended_at :: "int option"
  b_canceled_at :: "int option"

text \<open>
  The store: the two tables in insertion order and the two identifier sequences.
\<close>

record db =
  resources :: "resource list"
  bookings :: "booking list"
  next_resource_id :: int
  next_booking_id :: int

definition init_db :: db where
  "init_db = \<lparr>resources = [], bookings = [], next_resource_id = 1, next_booking_id = 1\<rparr>"

text \<open>
  The table declarations are in \<open>db.js\<close>, which is not among the sources. What the
  handlers depend on and the declarations decide is taken as a parameter: which whole
  numbers the integer columns hold (\<open>sc_int\<close>), which instants the timestamp columns read
  from the ISO string the handler sends (\<open>sc_time\<close>), and whether
  \<open>bookings.resource_id\<close> is declared as a foreign key to \<open>resources.id\<close>.
\<close>

record schema =
  sc_int :: "int \<Rightarrow> bool"
  sc_time :: "int \<Rightarrow> bool"
  sc_foreign_key :: bool

text \<open>
  The errors a statement raises: a parameter the store cannot read as the column's type
  (SQLSTATE class 22), a unique violation (23505), a foreign-key violation (23503).
\<close>

datatype pg_error = Data_exception | Unique_violation | Foreign_key_violation

subsection \<open>Sessions and responses\<close>

record user =
  u_id :: int
  u_username :: string
  u_role :: string

type_synonym session = "user option"

datatype body =
    Error string
  | ErrorMessage string string
  | ResourceJson resource_row
  | ResourceList "resource list"
  | BookingJson booking
  | BookingList "booking list"
  | NoContent

record response =
  status :: nat
  payload :: body

definition reply :: "nat \<Rightarrow> body \<Rightarrow> response" where
  "reply code b = \<lparr>status = code, payload = b\<rparr>"

text \<open>The answer of the \<open>catch\<close> blocks.\<close>

definition server_error :: response where
  "server_error = reply 500 (Error ''Server error'')"

subsection \<open>Auth guard\<close>

text \<open>
  \<open>requireAuth(roles)\<close>: \<open>Some r\<close> when the middleware answers itself, \<open>None\<close> when it
  calls \<open>next()\<close>.
\<close>

definition requireAuth :: "string list \<Rightarrow> session \<Rightarrow> response option" where
  "requireAuth roles sess =
     (case sess of
        None \<Rightarrow> Some (reply 401 (Error ''Unauthorized: Please login''))
      | Some u \<Rightarrow>
          if u_role u \<notin> set roles
          then Some (reply 403 (Error ''Forbidden: Insufficient permissions''))
          else None)"

definition guarded ::
  "string list \<Rightarrow> session \<Rightarrow> (db \<Rightarrow> response \<times> db) \<Rightarrow> db \<Rightarrow> response \<times> db" where
  "guarded roles sess handler d =
     (case requireAuth roles sess of Some r \<Rightarrow> (r, d) | None \<Rightarrow> handler d)"

section \<open>Bookings\<close>

subsection \<open>Creation\<close>

record booking_body =
  bb_kind :: "string option"
  bb_resource_id :: "int option"
  bb_resource_name :: "string option"
  bb_start_dt :: date_input
  bb_end_dt :: date_input
  bb_quantity :: "int option"
  bb_requester_name :: "string option"
  bb_requester_role :: "string option"
  bb_purpose :: "string option"

definition is_active :: "booking \<Rightarrow> bool" where
  "is_active b = (b_status b = REQUEST \<or> b_status b = ONGOING)"

definition is_terminal :: "booking \<Rightarrow> bool" where
  "is_terminal b = (b_status b = SUCCESS \<or> b_status b = CANCEL)"

text \<open>The \<open>WHERE\<close> clause of the conflict query, with \<open>$1..$4 = k, rid, s, e\<close>.\<close>

definition conflict_row :: "string \<Rightarrow> int \<Rightarrow> int \<Rightarrow> int \<Rightarrow> booking \<Rightarrow> bool" where
  "conflict_row k rid s e b =
     (b_kind b = k \<and> b_resource_id b = rid
      \<and> (b_status b = REQUEST \<or> b_status b = ONGOING)
      \<and> \<not> (e \<le> b_start_dt b \<or> s \<ge> b_end_dt b))"

definition conflict_query ::
  "schema \<Rightarrow> string \<Rightarrow> int \<Rightarrow> int \<Rightarrow> int \<Rightarrow> db \<Rightarrow> pg_error + booking list" where
  "conflict_query sc k rid s e d =
     (if sc_int sc rid \<and> sc_time sc s \<and> sc_time sc e
      then Inr (take 1 (filter (conflict_row k rid s e) (bookings d)))
      else Inl Data_exception)"

text \<open>The nine parameters of the \<open>INSERT\<close>, as the handler computes them.\<close>

record booking_values =
  bv_kind :: string
  bv_resource_id :: int
  bv_resource_name :: string
  bv_start_dt :: int
  bv_end_dt :: int
  bv_quantity :: "int option"
  bv_requester_name :: "string option"
  bv_requester_role :: "string option"
  bv_purpose :: "string option"

text \<open>
  Modelled from the spec: the declaration of the \<open>bookings\<close> table is in \<open>db.js\<close>, which is
  not among the sources. A booking has an identifier, which the store takes from a
  sequence; the three stamps of the lifecycle start empty. A sequence value taken by a
  statement that then fails on a constraint is not given back.
\<close>

definition insert_booking ::
  "schema \<Rightarrow> int \<Rightarrow> booking_values \<Rightarrow> db \<Rightarrow> (pg_error + booking) \<times> db" where
  "insert_booking sc now v d =
     (if \<not> (sc_int sc (bv_resource_id v) \<and> sc_time sc (bv_start_dt v)
             \<and> sc_time sc (bv_end_dt v)
             \<and> (case bv_quantity v of None \<Rightarrow> True | Some q \<Rightarrow> sc_int sc q))
      then (Inl Data_exception, d)
      else if sc_foreign_key sc \<and> \<not> (\<exists>r \<in> set (resources d). r_id r = bv_resource_id v)
      then (Inl Foreign_key_violation, d\<lparr>next_booking_id := next_booking_id d + 1\<rparr>)
      else
        (let row = \<lparr>b_id = next_booking_id d, b_kind = bv_kind v,
                    b_resource_id = bv_resource_id v,
                    b_resource_name = bv_resource_name v, b_start_dt = bv_start_dt v,
                    b_end_dt = bv_end_dt v, b_quantity = bv_quantity v,
                    b_status = REQUEST, b_requester_name = bv_requester_name v,
                    b_requester_role = bv_requester_role v,
                    b_purpose = bv_purpose v, b_created_at = now, b_updated_at = now,
                    b_started_at = None, b_ended_at = None, b_canceled_at = None\<rparr>
         in (Inr row,
             d\<lparr>bookings := bookings d @ [row], next_booking_id := next_booking_id d + 1\<rparr>)))"

text \<open>
  \<open>POST /api/bookings\<close>, up to and including its first \<open>await\<close>: the validation and the
  conflict query. \<open>Inl r\<close> when the handler answers \<open>r\<close> here, \<open>Inr v\<close> when it goes on
  to the \<open>INSERT\<close> with the parameters \<open>v\<close>.
\<close>

definition bookings_check ::
  "runtime \<Rightarrow> schema \<Rightarrow> booking_body \<Rightarrow> db \<Rightarrow> response + booking_values" where
  "bookings_check js sc req d =
     (if \<not> truthy_str (bb_kind req) \<or> \<not> truthy_num (bb_resource_id req)
         \<or> \<not> truthy_str (bb_resource_name req)
         \<or> \<not> truthy_date (bb_start_dt req) \<or> \<not> truthy_date (bb_end_dt req)
      then Inl (reply 400 (Error ''Missing required fields''))
      else
        (case (new_Date js (bb_start_dt req), new_Date js (bb_end_dt req)) of
           (Some s, Some e) \<Rightarrow>
             if e \<le> s
             then Inl (reply 400 (Error ''End time must be after start time''))
             else
               (let k = js_toUpperCase js (the (bb_kind req));
                    rid = the (bb_resource_id req)
                in case conflict_query sc k rid s e d of
                     Inl err \<Rightarrow> Inl server_error
                   | Inr rows \<Rightarrow>
                       if length rows > 0
                       then Inl (reply 409 (ErrorMessage ''CONFLICT''
                         ''That resource is already booked for this time window. Please choose another time.''))
                       else Inr \<lparr>bv_kind = k, bv_resource_id = rid,
                                 bv_resource_name = the (bb_resource_name req),
                                 bv_start_dt = s, bv_end_dt = e,
                                 bv_quantity = num_or_null (bb_quantity req),
                                 bv_requester_name = str_or_null (bb_requester_name req),
                                 bv_requester_role = str_or_null (bb_requester_role req),
                                 bv_purpose = str_or_null (bb_purpose req)\<rparr>)
         | _ \<Rightarrow> Inl (reply 400 (Error ''Invalid datetime format''))))"

text \<open>The second \<open>await\<close> of the handler: the \<open>INSERT\<close> and the answer.\<close>

definition bookings_insert :: "schema \<Rightarrow> int \<Rightarrow> booking_values \<Rightarrow> db \<Rightarrow> response \<times> db" where
  "bookings_insert sc now v d =
     (case insert_booking sc now v d of
        (Inl err, d') \<Rightarrow> (server_error, d')
      | (Inr row, d') \<Rightarrow> (reply 201 (BookingJson row), d'))"

text \<open>
  \<open>POST /api/bookings\<close> when no statement of another request runs between the conflict
  query and the \<open>INSERT\<close>. The route has no auth guard.
\<close>

definition post_bookings ::
  "runtime \<Rightarrow> schema \<Rightarrow> int \<Rightarrow> booking_body \<Rightarrow> db \<Rightarrow> response \<times> db" where
  "post_bookings js sc now req d =
     (case bookings_check js sc req d of
        Inl r \<Rightarrow> (r, d)
      | Inr v \<Rightarrow> bookings_insert sc now v d)"

subsection \<open>Lifecycle transitions\<close>

text \<open>
  \<open>POST /api/bookings/:id/start|finish|cancel\<close>: one \<open>UPDATE ... WHERE id=$1 RETURNING *\<close>
  each, with no condition on the current status and no check of the path parameter.
  The path parameter is \<open>None\<close> when \<open>Number(req.params.id)\<close> is not a whole number
  (\<open>NaN\<close>, a fraction, an infinity); the store refuses such a parameter, as it refuses a
  whole number outside the column's range. The handler answers 404 when the statement
  updated no row and the first updated row otherwise.
\<close>

definition start_row :: "int \<Rightarrow> booking \<Rightarrow> booking" where
  "start_row now b = b\<lparr>b_status := ONGOING, b_started_at := Some now, b_updated_at := now\<rparr>"

definition finish_row :: "int \<Rightarrow> booking \<Rightarrow> booking" where
  "finish_row now b = b\<lparr>b_status := SUCCESS, b_ended_at := Some now, b_updated_at := now\<rparr>"

definition cancel_row :: "int \<Rightarrow> booking \<Rightarrow> booking" where
  "cancel_row now b = b\<lparr>b_status := CANCEL, b_canceled_at := Some now, b_updated_at := now\<rparr>"

text \<open>\<open>UPDATE bookings SET ... WHERE id = $1 RETURNING *\<close>: the updated rows and the new store.\<close>

definition update_bookings ::
  "schema \<Rightarrow> (booking \<Rightarrow> booking) \<Rightarrow> int option \<Rightarrow> db \<Rightarrow> (pg_error + booking list) \<times> db" where
  "update_bookings sc f idp d =
     (case idp of
        None \<Rightarrow> (Inl Data_exception, d)
      | Some i \<Rightarrow>
          if \<not> sc_int sc i then (Inl Data_exception, d)
          else (Inr (map f (filter (\<lambda>b. b_id b = i) (bookings d))),
                d\<lparr>bookings := map (\<lambda>b. if b_id b = i then f b else b) (bookings d)\<rparr>))"

definition transition_reply :: "(pg_error + booking list) \<times> db \<Rightarrow> response \<times> db" where
  "transition_reply upd =
     (case upd of
        (Inl err, d') \<Rightarrow> (server_error, d')
      | (Inr [], d') \<Rightarrow> (reply 404 (Error ''Not found''), d')
      | (Inr (row # _), d') \<Rightarrow> (reply 200 (BookingJson row), d'))"

definition bookings_start :: "schema \<Rightarrow> int \<Rightarrow> int option \<Rightarrow> db \<Rightarrow> response \<times> db" where
  "bookings_start sc now idp d = transition_reply (update_bookings sc (start_row now) idp d)"

definition bookings_finish :: "schema \<Rightarrow> int \<Rightarrow> int option \<Rightarrow> db \<Rightarrow> response \<times> db" where
  "bookings_finish sc now idp d = transition_reply (update_bookings sc (finish_row now) idp d)"

definition bookings_cancel :: "schema \<Rightarrow> int \<Rightarrow> int option \<Rightarrow> db \<Rightarrow> response \<times> db" where
  "bookings_cancel sc now idp d = transition_reply (update_bookings sc (cancel_row now) idp d)"

text \<open>\<open>GET /api/bookings\<close>. The order of the rows in the answer is not modelled.\<close>

definition get_bookings :: "db \<Rightarrow> response \<times> db" where
  "get_bookings d = (reply 200 (BookingList (bookings d)), d)"

section \<open>Resources\<close>

definition resource_statuses :: "string list" where
  "resource_statuses = [''Available'', ''Maintenance'', ''Inactive'']"

text \<open>\<open>GET /api/resources?kind=\<close>. The order of the rows in the answer is not modelled.\<close>

definition get_resources :: "runtime \<Rightarrow> string option \<Rightarrow> db \<Rightarrow> response \<times> db" where
  "get_resources js kind d =
     (if truthy_str kind
      then (reply 200 (ResourceList
              (filter (\<lambda>r. r_kind r = js_toUpperCase js (the kind)) (resources d))), d)
      else (reply 200 (ResourceList (resources d)), d))"

subsection \<open>Creation\<close>

record resource_body =
  rb_kind :: "string option"
  rb_name :: "string option"
  rb_subcategory :: "string option"
  rb_type :: "string option"
  rb_quantity :: "int option"
  rb_status :: "string option"

text \<open>
  Modelled from the spec: the declaration of the \<open>resources\<close> table is in \<open>db.js\<close>, which is
  not among the sources. A resource has an identifier, which the store takes from a
  sequence, and its name is unique within its kind: an insertion that would repeat a
  (kind, name) pair fails with a unique violation and inserts nothing. A sequence value
  taken by a statement that then fails on a constraint is not given back. The statement
  gives no value for \<open>updated_at\<close>.
\<close>

definition insert_resource ::
  "schema \<Rightarrow> string \<Rightarrow> string \<Rightarrow> string option \<Rightarrow> string option \<Rightarrow> int \<Rightarrow> string \<Rightarrow> db \<Rightarrow>
   (pg_error + resource) \<times> db" where
  "insert_resource sc k n sub ty q st d =
     (if \<not> sc_int sc q then (Inl Data_exception, d)
      else if \<exists>r \<in> set (resources d). r_kind r = k \<and> r_name r = n
      then (Inl Unique_violation, d\<lparr>next_resource_id := next_resource_id d + 1\<rparr>)
      else
        (let row = \<lparr>r_id = next_resource_id d, r_kind = k, r_name = n, r_subcategory = sub,
                    r_type = ty, r_quantity = q, r_status = st, r_updated_at = None\<rparr>
         in (Inr row, d\<lparr>resources := resources d @ [row],
                         next_resource_id := next_resource_id d + 1\<rparr>)))"

text \<open>The \<open>catch\<close> block shared by the resource handlers: \<open>e.code === '23505'\<close> or not.\<close>

definition resource_error :: "pg_error \<Rightarrow> response" where
  "resource_error err =
     (if err = Unique_violation
      then reply 409 (Error ''Duplicate resource name for this kind'')
      else server_error)"

text \<open>The handler of \<open>POST /api/resources\<close>, behind the guard.\<close>

definition post_resources :: "runtime \<Rightarrow> schema \<Rightarrow> resource_body \<Rightarrow> db \<Rightarrow> response \<times> db" where
  "post_resources js sc req d =
     (let quantity = (case rb_quantity req of None \<Rightarrow> 1 | Some q \<Rightarrow> q);
          st = (case rb_status req of None \<Rightarrow> ''Available'' | Some s \<Rightarrow> s)
      in if \<not> truthy_str (rb_kind req) \<or> \<not> truthy_str (rb_name req)
         then (reply 400 (Error ''kind and name are required''), d)
         else if quantity < 0 then (reply 400 (Error ''quantity must be >= 0''), d)
         else if st \<notin> set resource_statuses then (reply 400 (Error ''invalid status''), d)
         else
           (case insert_resource sc (js_toUpperCase js (the (rb_kind req))) (the (rb_name req))
                   (rb_subcategory req) (rb_type req) quantity st d of
              (Inl err, d') \<Rightarrow> (resource_error err, d')
            | (Inr row, d') \<Rightarrow> (reply 201 (ResourceJson (resource_row.truncate row)), d')))"

subsection \<open>Update\<close>

text \<open>
  The body of a \<open>PATCH\<close> after the allow-list filter: only the five allow-listed keys
  survive it, so the record has no other field. \<open>subcategory\<close> and \<open>type\<close> may be sent
  as \<open>null\<close> (\<open>Some None\<close>).
\<close>

record patch_body =
  pb_name :: "string option"
  pb_subcategory :: "string option option"
  pb_type :: "string option option"
  pb_quantity :: "int option"
  pb_status :: "string option"

definition patch_empty :: "patch_body \<Rightarrow> bool" where
  "patch_empty p =
     (pb_name p = None \<and> pb_subcategory p = None \<and> pb_type p = None
      \<and> pb_quantity p = None \<and> pb_status p = None)"

text \<open>The \<open>SET\<close> list built from the filtered body, followed by \<open>updated_at = NOW()\<close>.\<close>

definition apply_patch :: "int \<Rightarrow> patch_body \<Rightarrow> resource \<Rightarrow> resource" where
  "apply_patch now p r =
     r\<lparr>r_name := (case pb_name p of None \<Rightarrow> r_name r | Some v \<Rightarrow> v),
       r_subcategory := (case pb_subcategory p of None \<Rightarrow> r_subcategory r | Some v \<Rightarrow> v),
       r_type := (case pb_type p of None \<Rightarrow> r_type r | Some v \<Rightarrow> v),
       r_quantity := (case pb_quantity p of None \<Rightarrow> r_quantity r | Some v \<Rightarrow> v),
       r_status := (case pb_status p of None \<Rightarrow> r_status r | Some v \<Rightarrow> v),
       r_updated_at := Some now\<rparr>"

text \<open>
  Modelled from the spec: the uniqueness of a name within its kind (declared in \<open>db.js\<close>)
  makes the \<open>UPDATE\<close> fail with a unique violation, changing nothing, when the updated
  row would repeat the (kind, name) pair of another row.
\<close>

definition update_resource ::
  "schema \<Rightarrow> int \<Rightarrow> int \<Rightarrow> patch_body \<Rightarrow> db \<Rightarrow> pg_error + (resource list \<times> db)" where
  "update_resource sc now i p d =
     (if \<not> sc_int sc i \<or> (case pb_quantity p of None \<Rightarrow> False | Some q \<Rightarrow> \<not> sc_int sc q)
      then Inl Data_exception
      else if \<exists>r \<in> set (resources d). r_id r = i \<and>
           (\<exists>other \<in> set (resources d). r_id other \<noteq> i
              \<and> r_kind other = r_kind (apply_patch now p r)
              \<and> r_name other = r_name (apply_patch now p r))
      then Inl Unique_violation
      else Inr (map (apply_patch now p) (filter (\<lambda>r. r_id r = i) (resources d)),
                d\<lparr>resources :=
                    map (\<lambda>r. if r_id r = i then apply_patch now p r else r) (resources d)\<rparr>))"

text \<open>
  The handler of \<open>PATCH /api/resources/:id\<close>, behind the guard. The path parameter is
  \<open>None\<close> when \<open>Number(req.params.id)\<close> is not an integer.
\<close>

definition patch_resources ::
  "schema \<Rightarrow> int \<Rightarrow> int option \<Rightarrow> patch_body \<Rightarrow> db \<Rightarrow> response \<times> db" where
  "patch_resources sc now idp p d =
     (case idp of
        None \<Rightarrow> (reply 400 (Error ''invalid id''), d)
      | Some i \<Rightarrow>
          if patch_empty p then (reply 400 (Error ''no fields to update''), d)
          else if (case pb_quantity p of None \<Rightarrow> False | Some q \<Rightarrow> q < 0)
          then (reply 400 (Error ''quantity must be >= 0''), d)
          else if (case pb_status p of None \<Rightarrow> False | Some s \<Rightarrow> s \<notin> set resource_statuses)
          then (reply 400 (Error ''invalid status''), d)
          else
            (case update_resource sc now i p d of
               Inl err \<Rightarrow> (resource_error err, d)
             | Inr ([], d') \<Rightarrow> (reply 404 (Error ''not found''), d')
             | Inr (row # _, d') \<Rightarrow> (reply 200 (ResourceJson (resource_row.truncate row)), d')))"

subsection \<open>Deletion\<close>

text \<open>\<open>String(req.query.hard || req.query.mode || '').toLowerCase().trim()\<close> and its test.\<close>

definition is_hard :: "runtime \<Rightarrow> string option \<Rightarrow> string option \<Rightarrow> bool" where
  "is_hard js hard mode =
     (let raw = (if truthy_str hard then the hard
                 else if truthy_str mode then the mode else []);
          hardQ = js_trim js (js_toLowerCase js raw)
      in hardQ = ''1'' \<or> hardQ = ''true'' \<or> hardQ = ''hard'')"

definition soft_delete_row :: "int \<Rightarrow> resource \<Rightarrow> resource" where
  "soft_delete_row now r = r\<lparr>r_status := ''Inactive'', r_updated_at := Some now\<rparr>"

text \<open>
  The handler of \<open>DELETE /api/resources/:id\<close>, behind the guard. In the hard mode the
  statements between \<open>BEGIN\<close> and \<open>COMMIT\<close> work on \<open>d1\<close> and \<open>d2\<close>; a \<open>ROLLBACK\<close>
  answers with the store \<open>d\<close> the transaction began with. With the foreign key declared,
  the store refuses to delete a resource that a booking still references.
\<close>

definition delete_resources ::
  "runtime \<Rightarrow> schema \<Rightarrow> int \<Rightarrow> int option \<Rightarrow> string option \<Rightarrow> string option \<Rightarrow> db \<Rightarrow>
   response \<times> db" where
  "delete_resources js sc now idp hard mode d =
     (case idp of
        None \<Rightarrow> (reply 400 (Error ''invalid id''), d)
      | Some i \<Rightarrow>
          if \<not> is_hard js hard mode
          then
            (if \<not> sc_int sc i then (server_error, d)
             else if length (filter (\<lambda>r. r_id r = i) (resources d)) = 0
             then (reply 404 (Error ''not found''), d)
             else (reply 204 NoContent,
                   d\<lparr>resources :=
                       map (\<lambda>r. if r_id r = i then soft_delete_row now r else r) (resources d)\<rparr>))
          else if \<not> sc_int sc i then (server_error, d)
          else
            (let active = take 1 (filter (\<lambda>b. b_resource_id b = i
                                   \<and> (b_status b = REQUEST \<or> b_status b = ONGOING)) (bookings d))
             in if length active > 0
                then (reply 409 (ErrorMessage ''in_use''
                  ''Cannot delete: there are active bookings (REQUEST/ONGOING) for this resource.''), d)
                else
                  (let d1 = d\<lparr>bookings := filter (\<lambda>b. \<not> (b_resource_id b = i
                                   \<and> (b_status b = SUCCESS \<or> b_status b = CANCEL))) (bookings d)\<rparr>;
                       del = length (filter (\<lambda>r. r_id r = i) (resources d1));
                       d2 = d1\<lparr>resources := filter (\<lambda>r. r_id r \<noteq> i) (resources d1)\<rparr>
                   in if sc_foreign_key sc \<and> del > 0
                         \<and> (\<exists>b \<in> set (bookings d1). b_resource_id b = i)
                      then (server_error, d)
                      else if del = 0 then (reply 404 (Error ''not found''), d)
                      else (reply 204 NoContent, d2))))"

section \<open>Routes\<close>

text \<open>
  The routes over the two tables, each with the guard it is registered with, for a
  request that is handled with no statement of another request in between. The
  \<open>/api/auth\<close> routes work on the \<open>admin_users\<close> table and the session store and are
  not part of this model.
\<close>

datatype request =
    GetResources "string option"
  | PostResources resource_body
  | PatchResources "int option" patch_body
  | DeleteResources "int option" "string option" "string option"
  | GetBookings
  | PostBookings booking_body
  | StartBooking "int option"
  | FinishBooking "int option"
  | CancelBooking "int option"

fun route ::
  "runtime \<Rightarrow> schema \<Rightarrow> int \<Rightarrow> session \<Rightarrow> request \<Rightarrow> db \<Rightarrow> response \<times> db" where
  "route js sc now sess (GetResources kind) d = get_resources js kind d"
| "route js sc now sess (PostResources req) d =
     guarded [''ADMIN'', ''STAFF''] sess (post_resources js sc req) d"
| "route js sc now sess (PatchResources idp p) d =
     guarded [''ADMIN'', ''STAFF''] sess (patch_resources sc now idp p) d"
| "route js sc now sess (DeleteResources idp hard mode) d =
     guarded [''ADMIN'', ''STAFF''] sess (delete_resources js sc now idp hard mode) d"
| "route js sc now sess GetBookings d = get_bookings d"
| "route js sc now sess (PostBookings req) d = post_bookings js sc now req d"
| "route js sc now sess (StartBooking idp) d =
     guarded [''ADMIN'', ''STAFF''] sess (bookings_start sc now idp) d"
| "route js sc now sess (FinishBooking idp) d =
     guarded [''ADMIN'', ''STAFF''] sess (bookings_finish sc now idp) d"
| "route js sc now sess (CancelBooking idp) d =
     guarded [''ADMIN'', ''STAFF''] sess (bookings_cancel sc now idp) d"

section \<open>Runs\<close>

text \<open>
  Statements take effect on the store one at a time, and a handler gives way at each
  \<open>await\<close>. Every handler but one sends a single statement or one transaction, which is
  taken in one piece; booking creation sends its conflict query and its \<open>INSERT\<close> as
  two statements with no transaction around them, so statements of other requests can
  run in between. An event is a request
  handled in one piece (\<open>Handle\<close>), or one of the two halves of a booking creation
  (\<open>Check\<close>, \<open>Insert\<close>), which a ticket number ties together. The world is the store
  and the creations that have passed their conflict query and wait for their \<open>INSERT\<close>.
\<close>

datatype event =
    Handle session request
  | Check nat booking_body
  | Insert nat

type_synonym world = "db \<times> (nat \<times> booking_values) list"

fun step :: "runtime \<Rightarrow> schema \<Rightarrow> int \<Rightarrow> event \<Rightarrow> world \<Rightarrow> world" where
  "step js sc now (Handle sess req) (d, waiting) = (snd (route js sc now sess req d), waiting)"
| "step js sc now (Check t req) (d, waiting) =
     (case bookings_check js sc req d of
        Inl r \<Rightarrow> (d, waiting)
      | Inr v \<Rightarrow> (d, (t, v) # waiting))"
| "step js sc now (Insert t) (d, waiting) =
     (case map_of waiting t of
        None \<Rightarrow> (d, waiting)
      | Some v \<Rightarrow> (snd (bookings_insert sc now v d), filter (\<lambda>w. fst w \<noteq> t) waiting))"

fun run :: "runtime \<Rightarrow> schema \<Rightarrow> (int \<times> event) list \<Rightarrow> world \<Rightarrow> world" where
  "run js sc [] w = w"
| "run js sc ((now, ev) # rest) w = run js sc rest (step js sc now ev w)"

section \<open>The overlap invariant\<close>

text \<open>
  Two bookings clash when both are active, they are for the same kind and resource, and
  their half-open intervals overlap.
\<close>

definition overlap :: "booking \<Rightarrow> booking \<Rightarrow> bool" where
  "overlap b c = (\<not> (b_end_dt b \<le> b_start_dt c \<or> b_start_dt b \<ge> b_end_dt c))"

definition clash :: "booking \<Rightarrow> booking \<Rightarrow> bool" where
  "clash b c =
     (is_active b \<and> is_active c \<and> b_kind b = b_kind c
      \<and> b_resource_id b = b_resource_id c \<and> overlap b c)"

text \<open>No two rows at different positions of the table clash.\<close>

definition no_overlap :: "booking list \<Rightarrow> bool" where
  "no_overlap bs = sorted_wrt (\<lambda>b c. \<not> clash b c) bs"

text \<open>
  An event is calm when, if it starts a booking, every booking it is addressed to is
  still active, and, if it is the \<open>INSERT\<close> of a creation, the conflict query of that
  creation would still come back empty.
\<close>

fun calm :: "event \<Rightarrow> world \<Rightarrow> bool" where
  "calm (Handle sess (StartBooking idp)) (d, waiting) =
     (\<forall>b \<in> set (bookings d). Some (b_id b) = idp \<longrightarrow> is_active b)"
| "calm (Insert t) (d, waiting) =
     (case map_of waiting t of
        None \<Rightarrow> True
      | Some v \<Rightarrow> \<not> (\<exists>b \<in> set (bookings d).
           conflict_row (bv_kind v) (bv_resource_id v) (bv_start_dt v) (bv_end_dt v) b))"
| "calm _ w = True"

fun calm_run :: "runtime \<Rightarrow> schema \<Rightarrow> (int \<times> event) list \<Rightarrow> world \<Rightarrow> bool" where
  "calm_run js sc [] w = True"
| "calm_run js sc ((now, ev) # rest) w =
     (calm ev w \<and> calm_run js sc rest (step js sc now ev w))"

text \<open>
  An event that addresses the booking \<open>b\<close>: a transition on its identifier, or a hard
  delete of the resource it references.
\<close>

fun addresses :: "runtime \<Rightarrow> event \<Rightarrow> booking \<Rightarrow> bool" where
  "addresses js (Handle sess (StartBooking idp)) b = (idp = Some (b_id b))"
| "addresses js (Handle sess (FinishBooking idp)) b = (idp = Some (b_id b))"
| "addresses js (Handle sess (CancelBooking idp)) b = (idp = Some (b_id b))"
| "addresses js (Handle sess (DeleteResources idp hard mode)) b =
     (is_hard js hard mode \<and> idp = Some (b_resource_id b))"
| "addresses js _ b = False"

section \<open>Samples\<close>

text \<open>
  A runtime for the examples: the three string methods on the ASCII range, where they are
  what JavaScript computes (other bytes are left as they are), and a date parser that
  reads five ISO strings.
\<close>

definition upper_char :: "char \<Rightarrow> char" where
  "upper_char c =
     (let n = (of_char c :: nat) in if 97 \<le> n \<and> n \<le> 122 then char_of (n - 32) else c)"

definition lower_char :: "char \<Rightarrow> char" where
  "lower_char c =
     (let n = (of_char c :: nat) in if 65 \<le> n \<and> n \<le> 90 then char_of (n + 32) else c)"

definition is_space :: "char \<Rightarrow> bool" where
  "is_space c = ((of_char c :: nat) \<in> {9, 10, 11, 12, 13, 32})"

definition sample_dates :: "(string \<times> int) list" where
  "sample_dates =
     [(''2024-05-01T10:00:00Z'', 1714557600000),
      (''2024-05-01T10:30:00Z'', 1714559400000),
      (''2024-05-01T11:00:00Z'', 1714561200000),
      (''2024-05-01T11:30:00Z'', 1714563000000),
      (''2024-05-01T12:00:00Z'', 1714564800000)]"

definition sample_js :: runtime where
  "sample_js =
     \<lparr>js_toUpperCase = map upper_char,
      js_toLowerCase = map lower_char,
      js_trim = (\<lambda>s. rev (dropWhile is_space (rev (dropWhile is_space s)))),
      js_parse = map_of sample_dates\<rparr>"

text \<open>
  A schema for the examples: 32-bit integer columns, timestamps of the years 1 to 9999,
  no foreign key; and the same schema with the foreign key.
\<close>

definition sample_schema :: schema where
  "sample_schema =
     \<lparr>sc_int = (\<lambda>n. - 2147483648 \<le> n \<and> n \<le> 2147483647),
      sc_time = (\<lambda>t. - 62135596800000 \<le> t \<and> t \<le> 253402300799999),
      sc_foreign_key = False\<rparr>"

definition keyed_schema :: schema where
  "keyed_schema = sample_schema\<lparr>sc_foreign_key := True\<rparr>"

definition admin :: user where
  "admin = \<lparr>u_id = 1, u_username = ''admin'', u_role = ''ADMIN''\<rparr>"

definition visitor :: user where
  "visitor = \<lparr>u_id = 2, u_username = ''guest'', u_role = ''USER''\<rparr>"

text \<open>
  A request for the window \<open>[s, e)\<close> of resource 7, sent with the kind in lower case and
  the instants as numbers.
\<close>

definition room_body :: "int \<Rightarrow> int \<Rightarrow> booking_body" where
  "room_body s e =
     \<lparr>bb_kind = Some ''room'', bb_resource_id = Some 7, bb_resource_name = Some ''Room A'',
      bb_start_dt = DateNumber s, bb_end_dt = DateNumber e, bb_quantity = None,
      bb_requester_name = Some ''Ana'', bb_requester_role = None, bb_purpose = None\<rparr>"

text \<open>The same request with the instants as strings.\<close>

definition room_slot :: "string \<Rightarrow> string \<Rightarrow> booking_body" where
  "room_slot s e = (room_body 0 0)\<lparr>bb_start_dt := DateString s, bb_end_dt := DateString e\<rparr>"

definition room_a :: resource_body where
  "room_a = \<lparr>rb_kind = Some ''Room'', rb_name = Some ''Room A'', rb_subcategory = None,
             rb_type = None, rb_quantity = None, rb_status = None\<rparr>"

definition rename_to :: "string \<Rightarrow> patch_body" where
  "rename_to n = \<lparr>pb_name = Some n, pb_subcategory = None, pb_type = None,
                  pb_quantity = None, pb_status = None\<rparr>"

text \<open>The store after one accepted booking, and after one accepted resource.\<close>

definition one_booking :: db where
  "one_booking = snd (post_bookings sample_js sample_schema 1 (room_body 600 660) init_db)"

definition one_resource :: db where
  "one_resource = snd (post_resources sample_js sample_schema room_a init_db)"

text \<open>The store after the booking of resource 7 from 10:00 to 11:00 was accepted.\<close>

definition slot_booked :: db where
  "slot_booked =
     snd (post_bookings sample_js sample_schema 1
            (room_slot ''2024-05-01T10:00:00Z'' ''2024-05-01T11:00:00Z'') init_db)"

text \<open>
  The store with resource 1 and one booking of it in REQUEST, and the same store after
  that booking was cancelled.
\<close>

definition booked_room :: db where
  "booked_room =
     snd (post_bookings sample_js sample_schema 2
            ((room_body 600 660)\<lparr>bb_resource_id := Some 1\<rparr>) one_resource)"

definition settled_room :: db where
  "settled_room = snd (bookings_cancel sample_schema 3 (Some 1) booked_room)"

text \<open>The store with a cancelled booking of resource 7, which no row of \<open>resources\<close> has.\<close>

definition orphan_booking :: db where
  "orphan_booking = snd (bookings_cancel sample_schema 3 (Some 1) one_booking)"

text \<open>The store with a cancelled booking 1 and a requested booking 2.\<close>

definition two_bookings :: db where
  "two_bookings =
     snd (post_bookings sample_js sample_schema 4 (room_body 600 660) orphan_booking)"

text \<open>
  A run in which a booking is cancelled, its window is booked again, and the cancelled
  booking is then started.
\<close>

definition restart_run :: "(int \<times> event) list" where
  "restart_run =
     [(1, Handle None (PostBookings (room_body 600 660))),
      (2, Handle (Some admin) (CancelBooking (Some 1))),
      (3, Handle None (PostBookings (room_body 600 660))),
      (4, Handle (Some admin) (StartBooking (Some 1)))]"

text \<open>
  A run in which two creations for the same window both pass their conflict query before
  either inserts.
\<close>

definition race_run :: "(int \<times> event) list" where
  "race_run =
     [(1, Check 1 (room_body 600 660)),
      (2, Check 2 (room_body 630 690)),
      (3, Insert 1),
      (4, Insert 2)]"

text \<open>
  A run with an accepted, a rejected and an adjacent booking request, the second of them
  in two halves with another request in between, after which the first booking is
  started.
\<close>

definition busy_run :: "(int \<times> event) list" where
  "busy_run =
     [(1, Handle None (PostBookings (room_body 600 660))),
      (2, Check 1 (room_body 660 720)),
      (3, Handle None (PostBookings (room_body 630 690))),
      (4, Insert 1),
      (5, Handle (Some admin) (StartBooking (Some 1)))]"

section \<open>Properties\<close>

subsection \<open>Booking creation\<close>

lemma conflict_query_rows:
  "sc_int sc rid \<Longrightarrow> sc_time sc s \<Longrightarrow> sc_time sc e \<Longrightarrow>
     conflict_query sc k rid s e d = Inr (take 1 (filter (conflict_row k rid s e) (bookings d)))"
  by (simp add: conflict_query_def)

lemma conflict_rows_empty:
  "(length (take 1 (filter (conflict_row k rid s e) (bookings d))) > 0) =
     (\<exists>b \<in> set (bookings d). conflict_row k rid s e b)"
  by (simp add: filter_empty_conv)

lemma bookings_check_checked:
  assumes "bb_kind req = Some k" "k \<noteq> []" "bb_resource_id req = Some rid" "rid \<noteq> 0"
    and "bb_resource_name req = Some n" "n \<noteq> []"
    and "truthy_date (bb_start_dt req)" "new_Date js (bb_start_dt req) = Some s"
    and "truthy_date (bb_end_dt req)" "new_Date js (bb_end_dt req) = Some e" "s < e"
    and "sc_int sc rid" "sc_time sc s" "sc_time sc e"
  shows "bookings_check js sc req d =
     (if \<exists>b \<in> set (bookings d). conflict_row (js_toUpperCase js k) rid s e b
      then Inl (reply 409 (ErrorMessage ''CONFLICT''
        ''That resource is already booked for this time window. Please choose another time.''))
      else Inr \<lparr>bv_kind = js_toUpperCase js k, bv_resource_id = rid,
                bv_resource_name = n, bv_start_dt = s, bv_end_dt = e,
                bv_quantity = num_or_null (bb_quantity req),
                bv_requester_name = str_or_null (bb_requester_name req),
                bv_requester_role = str_or_null (bb_requester_role req),
                bv_purpose = str_or_null (bb_purpose req)\<rparr>)"
  using assms conflict_rows_empty [of "js_toUpperCase js k" rid s e d]
  by (simp add: bookings_check_def truthy_str_def truthy_num_def conflict_query_rows
      del: length_greater_0_conv)

lemma insert_booking_accepted:
  assumes "sc_int sc (bv_resource_id v)" "sc_time sc (bv_start_dt v)" "sc_time sc (bv_end_dt v)"
    and "\<forall>q. bv_quantity v = Some q \<longrightarrow> sc_int sc q"
    and "sc_foreign_key sc \<longrightarrow> (\<exists>r \<in> set (resources d). r_id r = bv_resource_id v)"
  shows "insert_booking sc now v d =
     (Inr \<lparr>b_id = next_booking_id d, b_kind = bv_kind v,
                    b_resource_id = bv_resource_id v,
                    b_resource_name = bv_resource_name v, b_start_dt = bv_start_dt v,
                    b_end_dt = bv_end_dt v, b_quantity = bv_quantity v,
                    b_status = REQUEST, b_requester_name = bv_requester_name v,
                    b_requester_role = bv_requester_role v,
                    b_purpose = bv_purpose v, b_created_at = now, b_updated_at = now,
                    b_started_at = None, b_ended_at = None, b_canceled_at = None\<rparr>,
      d\<lparr>bookings := bookings d @
           [\<lparr>b_id = next_booking_id d, b_kind = bv_kind v,
                    b_resource_id = bv_resource_id v,
                    b_resource_name = bv_resource_name v, b_start_dt = bv_start_dt v,
                    b_end_dt = bv_end_dt v, b_quantity = bv_quantity v,
                    b_status = REQUEST, b_requester_name = bv_requester_name v,
                    b_requester_role = bv_requester_role v,
                    b_purpose = bv_purpose v, b_created_at = now, b_updated_at = now,
                    b_started_at = None, b_ended_at = None, b_canceled_at = None\<rparr>],
         next_booking_id := next_booking_id d + 1\<rparr>)"
  using assms by (cases "bv_quantity v") (auto simp: insert_booking_def Let_def)

lemma num_or_null_Some: "num_or_null v = Some q \<Longrightarrow> v = Some q"
  by (simp add: num_or_null_def split: if_splits)

text \<open>
  C1 (as amended). Take a booking request whose five required fields \<open>kind\<close>,
  \<open>resource_id\<close>, \<open>resource_name\<close>, \<open>start_dt\<close> and \<open>end_dt\<close> are truthy (the number 0
  and the empty string are not), whose two datetimes are valid dates \<open>s < e\<close>, and whose
  values the store takes: the identifier and the quantity fit the integer columns, the
  two instants are read as timestamps, and the resource exists if \<open>resource_id\<close> is a
  foreign key. When no statement of another request runs between the conflict query and
  the \<open>INSERT\<close>, the answer is 201 exactly when no active booking (REQUEST or ONGOING)
  of the same resource whose kind is the upper-cased kind of the request overlaps the
  window \<open>[s, e)\<close>; with such a booking the answer is 409 with error kind CONFLICT and
  the store is unchanged; without one a row with status REQUEST is appended; bookings
  that end at or before \<open>s\<close> or start at or after \<open>e\<close> never make a conflict.
\<close>

theorem post_bookings_conflict_iff:
  assumes "bb_kind req = Some k" "k \<noteq> []" "bb_resource_id req = Some rid" "rid \<noteq> 0"
    and "bb_resource_name req = Some n" "n \<noteq> []"
    and "truthy_date (bb_start_dt req)" "new_Date js (bb_start_dt req) = Some s"
    and "truthy_date (bb_end_dt req)" "new_Date js (bb_end_dt req) = Some e" "s < e"
    and "sc_int sc rid" "sc_time sc s" "sc_time sc e"
    and "\<forall>q. bb_quantity req = Some q \<longrightarrow> sc_int sc q"
    and "sc_foreign_key sc \<longrightarrow> (\<exists>r \<in> set (resources d). r_id r = rid)"
  shows
    "(status (fst (post_bookings js sc now req d)) = 201) =
       (\<not> (\<exists>b \<in> set (bookings d). b_kind b = js_toUpperCase js k \<and> b_resource_id b = rid
              \<and> is_active b \<and> b_start_dt b < e \<and> s < b_end_dt b))
     \<and> ((\<exists>b \<in> set (bookings d). b_kind b = js_toUpperCase js k \<and> b_resource_id b = rid
              \<and> is_active b \<and> b_start_dt b < e \<and> s < b_end_dt b) \<longrightarrow>
          status (fst (post_bookings js sc now req d)) = 409
          \<and> (\<exists>m. payload (fst (post_bookings js sc now req d)) = ErrorMessage ''CONFLICT'' m)
          \<and> snd (post_bookings js sc now req d) = d)
     \<and> (\<not> (\<exists>b \<in> set (bookings d). b_kind b = js_toUpperCase js k \<and> b_resource_id b = rid
              \<and> is_active b \<and> b_start_dt b < e \<and> s < b_end_dt b) \<longrightarrow>
          (\<exists>row. post_bookings js sc now req d =
                   (reply 201 (BookingJson row),
                    d\<lparr>bookings := bookings d @ [row],
                      next_booking_id := next_booking_id d + 1\<rparr>)
                 \<and> b_status row = REQUEST \<and> b_kind row = js_toUpperCase js k
                 \<and> b_resource_id row = rid \<and> b_start_dt row = s \<and> b_end_dt row = e))
     \<and> ((\<forall>b \<in> set (bookings d). b_end_dt b \<le> s \<or> e \<le> b_start_dt b) \<longrightarrow>
          status (fst (post_bookings js sc now req d)) = 201)"
proof -
  let ?clashing = "\<exists>b \<in> set (bookings d). b_kind b = js_toUpperCase js k \<and> b_resource_id b = rid
              \<and> is_active b \<and> b_start_dt b < e \<and> s < b_end_dt b"
  let ?r = "post_bookings js sc now req d"
  let ?v = "\<lparr>bv_kind = js_toUpperCase js k, bv_resource_id = rid,
                bv_resource_name = n, bv_start_dt = s, bv_end_dt = e,
                bv_quantity = num_or_null (bb_quantity req),
                bv_requester_name = str_or_null (bb_requester_name req),
                bv_requester_role = str_or_null (bb_requester_role req),
                bv_purpose = str_or_null (bb_purpose req)\<rparr>"
  note chk = bookings_check_checked [OF assms(1-14), of d]
  have q: "(\<exists>b \<in> set (bookings d). conflict_row (js_toUpperCase js k) rid s e b) = ?clashing"
    by (auto simp: conflict_row_def is_active_def)
  have chk': "bookings_check js sc req d =
     (if ?clashing
      then Inl (reply 409 (ErrorMessage ''CONFLICT''
        ''That resource is already booked for this time window. Please choose another time.''))
      else Inr ?v)"
    by (simp only: chk q)
  have touch: "\<not> ?clashing" if "\<forall>b \<in> set (bookings d). b_end_dt b \<le> s \<or> e \<le> b_start_dt b"
    using that by fastforce
  have rejected: "?r = (reply 409 (ErrorMessage ''CONFLICT''
        ''That resource is already booked for this time window. Please choose another time.''), d)"
    if ?clashing
    by (simp only: post_bookings_def chk' that if_True sum.case)
  have ins: "insert_booking sc now ?v d =
     (Inr \<lparr>b_id = next_booking_id d, b_kind = bv_kind ?v,
                    b_resource_id = bv_resource_id ?v,
                    b_resource_name = bv_resource_name ?v, b_start_dt = bv_start_dt ?v,
                    b_end_dt = bv_end_dt ?v, b_quantity = bv_quantity ?v,
                    b_status = REQUEST, b_requester_name = bv_requester_name ?v,
                    b_requester_role = bv_requester_role ?v,
                    b_purpose = bv_purpose ?v, b_created_at = now, b_updated_at = now,
                    b_started_at = None, b_ended_at = None, b_canceled_at = None\<rparr>,
      d\<lparr>bookings := bookings d @
           [\<lparr>b_id = next_booking_id d, b_kind = bv_kind ?v,
                    b_resource_id = bv_resource_id ?v,
                    b_resource_name = bv_resource_name ?v, b_start_dt = bv_start_dt ?v,
                    b_end_dt = bv_end_dt ?v, b_quantity = bv_quantity ?v,
                    b_status = REQUEST, b_requester_name = bv_requester_name ?v,
                    b_requester_role = bv_requester_role ?v,
                    b_purpose = bv_purpose ?v, b_created_at = now, b_updated_at = now,
                    b_started_at = None, b_ended_at = None, b_canceled_at = None\<rparr>],
         next_booking_id := next_booking_id d + 1\<rparr>)"
    using assms(12-16) by (intro insert_booking_accepted) (auto dest: num_or_null_Some)
  have accepted: "\<exists>row. ?r =
                   (reply 201 (BookingJson row),
                    d\<lparr>bookings := bookings d @ [row],
                      next_booking_id := next_booking_id d + 1\<rparr>)
                 \<and> b_status row = REQUEST \<and> b_kind row = js_toUpperCase js k
                 \<and> b_resource_id row = rid \<and> b_start_dt row = s \<and> b_end_dt row = e"
    if "\<not> ?clashing"
  proof -
    have "?r = bookings_insert sc now ?v d"
      by (simp only: post_bookings_def chk' that if_False sum.case)
    then show ?thesis
      unfolding bookings_insert_def ins
      by (intro exI [of _ "\<lparr>b_id = next_booking_id d, b_kind = bv_kind ?v,
                    b_resource_id = bv_resource_id ?v,
                    b_resource_name = bv_resource_name ?v, b_start_dt = bv_start_dt ?v,
                    b_end_dt = bv_end_dt ?v, b_quantity = bv_quantity ?v,
                    b_status = REQUEST, b_requester_name = bv_requester_name ?v,
                    b_requester_role = bv_requester_role ?v,
                    b_purpose = bv_purpose ?v, b_created_at = now, b_updated_at = now,
                    b_started_at = None, b_ended_at = None, b_canceled_at = None\<rparr>"]) simp
  qed
  have s409: "status (fst ?r) = 409" if ?clashing
    using rejected [OF that] by (simp add: reply_def)
  have s201: "status (fst ?r) = 201" if "\<not> ?clashing"
    using accepted [OF that] by (auto simp: reply_def)
  have c1: "(status (fst ?r) = 201) = (\<not> ?clashing)"
    using s409 s201 by (cases ?clashing) simp_all
  have c2: "?clashing \<longrightarrow> status (fst ?r) = 409
          \<and> (\<exists>m. payload (fst ?r) = ErrorMessage ''CONFLICT'' m) \<and> snd ?r = d"
    using rejected by (simp add: reply_def)
  have c3: "\<not> ?clashing \<longrightarrow> (\<exists>row. ?r =
                   (reply 201 (BookingJson row),
                    d\<lparr>bookings := bookings d @ [row],
                      next_booking_id := next_booking_id d + 1\<rparr>)
                 \<and> b_status row = REQUEST \<and> b_kind row = js_toUpperCase js k
                 \<and> b_resource_id row = rid \<and> b_start_dt row = s \<and> b_end_dt row = e)"
    using accepted by blast
  have c4: "(\<forall>b \<in> set (bookings d). b_end_dt b \<le> s \<or> e \<le> b_start_dt b) \<longrightarrow>
          status (fst ?r) = 201"
    using touch s201 by blast
  show ?thesis by (rule conjI [OF c1 conjI [OF c2 conjI [OF c3 c4]]])
qed

lemma room_slot_fields:
  "bb_kind (room_slot s e) = Some ''room''" "''room'' \<noteq> []"
  "bb_resource_id (room_slot s e) = Some 7" "(7::int) \<noteq> 0"
  "bb_resource_name (room_slot s e) = Some ''Room A''" "''Room A'' \<noteq> []"
  by (simp_all add: room_slot_def room_body_def)

lemma sample_schema_takes:
  "sc_int sample_schema 7"
  "\<forall>q. bb_quantity (room_slot s e) = Some q \<longrightarrow> sc_int sample_schema q"
  "sc_foreign_key sample_schema \<longrightarrow> (\<exists>r \<in> set (resources d). r_id r = 7)"
  by (simp_all add: sample_schema_def room_slot_def room_body_def)

theorem post_bookings_conflict_iff_witness:
  "status (fst (post_bookings sample_js sample_schema 9
            (room_slot ''2024-05-01T10:30:00Z'' ''2024-05-01T11:30:00Z'') slot_booked)) = 409
   \<and> status (fst (post_bookings sample_js sample_schema 9
            (room_slot ''2024-05-01T11:00:00Z'' ''2024-05-01T12:00:00Z'') slot_booked)) = 201"
proof -
  let ?half = "room_slot ''2024-05-01T10:30:00Z'' ''2024-05-01T11:30:00Z''"
  let ?next = "room_slot ''2024-05-01T11:00:00Z'' ''2024-05-01T12:00:00Z''"
  have h: "truthy_date (bb_start_dt ?half)"
    "new_Date sample_js (bb_start_dt ?half) = Some 1714559400000"
    "truthy_date (bb_end_dt ?half)"
    "new_Date sample_js (bb_end_dt ?half) = Some 1714563000000"
    "(1714559400000::int) < 1714563000000"
    by code_simp+
  have n: "truthy_date (bb_start_dt ?next)"
    "new_Date sample_js (bb_start_dt ?next) = Some 1714561200000"
    "truthy_date (bb_end_dt ?next)"
    "new_Date sample_js (bb_end_dt ?next) = Some 1714564800000"
    "(1714561200000::int) < 1714564800000"
    by code_simp+
  have t: "sc_time sample_schema 1714559400000" "sc_time sample_schema 1714563000000"
    "sc_time sample_schema 1714561200000" "sc_time sample_schema 1714564800000"
    by code_simp+
  have over: "\<exists>b \<in> set (bookings slot_booked). b_kind b = js_toUpperCase sample_js ''room''
              \<and> b_resource_id b = 7
              \<and> is_active b \<and> b_start_dt b < 1714563000000 \<and> 1714559400000 < b_end_dt b"
    by code_simp
  have touch: "\<forall>b \<in> set (bookings slot_booked).
                 b_end_dt b \<le> 1714561200000 \<or> 1714564800000 \<le> b_start_dt b"
    by code_simp
  note a = post_bookings_conflict_iff [OF room_slot_fields h sample_schema_takes(1) t(1,2)
      sample_schema_takes(2,3), where d = slot_booked and now = 9]
  note b = post_bookings_conflict_iff [OF room_slot_fields n sample_schema_takes(1) t(3,4)
      sample_schema_takes(2,3), where d = slot_booked and now = 9]
  from a [THEN conjunct2, THEN conjunct1, THEN mp, OF over, THEN conjunct1]
    b [THEN conjunct2, THEN conjunct2, THEN conjunct2, THEN mp, OF touch]
  show ?thesis by (rule conjI)
qed

text \<open>
  The claim C1 as it is written, for every request with \<open>end > start\<close>, fails on a request
  that leaves \<open>resource_name\<close> out, on a request whose \<open>start_dt\<close> is the number 0 (the
  epoch, a valid date before its end), and on a request for a resource identifier no
  integer column holds: the window is valid and the table is empty, yet the answers are
  400, 400 and 500, and nothing is inserted.
\<close>

theorem post_bookings_missing_field_counterexample:
  "bookings init_db = []
   \<and> (10::int) < 11
   \<and> status (fst (post_bookings sample_js sample_schema 5
        ((room_body 10 11)\<lparr>bb_resource_name := None\<rparr>) init_db)) = 400
   \<and> bookings (snd (post_bookings sample_js sample_schema 5
        ((room_body 10 11)\<lparr>bb_resource_name := None\<rparr>) init_db)) = []
   \<and> new_Date sample_js (DateNumber 0) = Some 0
   \<and> new_Date sample_js (DateNumber 1000) = Some 1000
   \<and> (0::int) < 1000
   \<and> status (fst (post_bookings sample_js sample_schema 5 (room_body 0 1000) init_db)) = 400
   \<and> bookings (snd (post_bookings sample_js sample_schema 5 (room_body 0 1000) init_db)) = []
   \<and> status (fst (post_bookings sample_js sample_schema 5
        ((room_body 10 11)\<lparr>bb_resource_id := Some 1000000000000000000000\<rparr>) init_db)) = 500
   \<and> bookings (snd (post_bookings sample_js sample_schema 5
        ((room_body 10 11)\<lparr>bb_resource_id := Some 1000000000000000000000\<rparr>) init_db)) = []"
  by code_simp

text \<open>
  C5. A booking request whose end instant is at or before its start instant is answered
  with status 400 and the store is left as it was: the interval check comes before the
  conflict query and the insertion.
\<close>

theorem post_bookings_inverted_interval:
  "new_Date js (bb_start_dt req) = Some s \<Longrightarrow> new_Date js (bb_end_dt req) = Some e \<Longrightarrow> e \<le> s \<Longrightarrow>
     status (fst (post_bookings js sc now req d)) = 400 \<and> snd (post_bookings js sc now req d) = d"
  by (simp add: post_bookings_def bookings_check_def reply_def)

theorem post_bookings_inverted_interval_witness:
  "status (fst (post_bookings sample_js sample_schema 5 (room_body 11 10) init_db)) = 400
   \<and> snd (post_bookings sample_js sample_schema 5 (room_body 11 10) init_db) = init_db"
proof -
  have s: "new_Date sample_js (bb_start_dt (room_body 11 10)) = Some 11" by code_simp
  have e: "new_Date sample_js (bb_end_dt (room_body 11 10)) = Some 10" by code_simp
  show ?thesis using post_bookings_inverted_interval [OF s e] by simp
qed

subsection \<open>Booking creation and the resources table\<close>

lemma post_bookings_status_cases:
  "status (fst (post_bookings js sc now req d)) \<in> {400, 409, 201, 500}"
  by (auto simp: post_bookings_def bookings_check_def bookings_insert_def reply_def
      server_error_def Let_def split: option.split sum.split prod.split)

lemma conflict_query_resources:
  "conflict_query sc k rid s e (d\<lparr>resources := rs\<rparr>) = conflict_query sc k rid s e d"
  by (simp add: conflict_query_def)

lemma bookings_check_resources:
  "bookings_check js sc req (d\<lparr>resources := rs\<rparr>) = bookings_check js sc req d"
  unfolding bookings_check_def conflict_query_resources ..

lemma post_bookings_free:
  assumes "bb_kind req = Some k" "k \<noteq> []" "bb_resource_id req = Some rid" "rid \<noteq> 0"
    and "bb_resource_name req = Some n" "n \<noteq> []"
    and "truthy_date (bb_start_dt req)" "new_Date js (bb_start_dt req) = Some s"
    and "truthy_date (bb_end_dt req)" "new_Date js (bb_end_dt req) = Some e" "s < e"
    and "sc_int sc rid" "sc_time sc s" "sc_time sc e"
    and "\<not> (\<exists>b \<in> set (bookings d). b_kind b = js_toUpperCase js k \<and> b_resource_id b = rid
              \<and> is_active b \<and> b_start_dt b < e \<and> s < b_end_dt b)"
  shows "post_bookings js sc now req d =
     bookings_insert sc now
       \<lparr>bv_kind = js_toUpperCase js k, bv_resource_id = rid,
                bv_resource_name = n, bv_start_dt = s, bv_end_dt = e,
                bv_quantity = num_or_null (bb_quantity req),
                bv_requester_name = str_or_null (bb_requester_name req),
                bv_requester_role = str_or_null (bb_requester_role req),
                bv_purpose = str_or_null (bb_purpose req)\<rparr> d"
proof -
  from assms(15)
  have "\<not> (\<exists>b \<in> set (bookings d). conflict_row (js_toUpperCase js k) rid s e b)"
    by (auto simp: conflict_row_def is_active_def)
  then show ?thesis
    by (simp only: post_bookings_def bookings_check_checked [OF assms(1-14)] if_False sum.case)
qed

lemma insert_booking_no_resource:
  assumes "sc_int sc (bv_resource_id v)" "sc_time sc (bv_start_dt v)" "sc_time sc (bv_end_dt v)"
    and "\<forall>q. bv_quantity v = Some q \<longrightarrow> sc_int sc q"
    and "sc_foreign_key sc" "\<not> (\<exists>r \<in> set (resources d). r_id r = bv_resource_id v)"
  shows "insert_booking sc now v d =
     (Inl Foreign_key_violation, d\<lparr>next_booking_id := next_booking_id d + 1\<rparr>)"
  using assms by (cases "bv_quantity v") (auto simp: insert_booking_def)

text \<open>
  C10 (as amended). Booking creation never checks that \<open>resource_id\<close> refers to an
  existing resource: its validation and its conflict query do not read the \<open>resources\<close>
  table, and it never answers 404. Take a request whose five required fields are truthy
  (the number 0 and the empty string are not), whose datetimes are valid dates
  \<open>s < e\<close>, whose values the store takes, and which no active booking overlaps. If
  \<open>bookings.resource_id\<close> is not a foreign key, or a resource with that identifier
  exists (in any status), the answer is 201 and the row is appended; this is so in
  particular when there is no foreign key and no resource has the identifier. If it is
  a foreign key and no resource has the identifier, the \<open>INSERT\<close> fails and the answer
  is 500 with both tables unchanged.
\<close>

theorem post_bookings_no_resource_check:
  "((bb_kind req = Some k \<and> k \<noteq> [] \<and> bb_resource_id req = Some rid \<and> rid \<noteq> 0
    \<and> bb_resource_name req = Some n \<and> n \<noteq> []
    \<and> truthy_date (bb_start_dt req) \<and> new_Date js (bb_start_dt req) = Some s
    \<and> truthy_date (bb_end_dt req) \<and> new_Date js (bb_end_dt req) = Some e \<and> s < e
    \<and> sc_int sc rid \<and> sc_time sc s \<and> sc_time sc e
    \<and> (\<forall>q. bb_quantity req = Some q \<longrightarrow> sc_int sc q)
    \<and> \<not> (\<exists>b \<in> set (bookings d). b_kind b = js_toUpperCase js k \<and> b_resource_id b = rid
              \<and> is_active b \<and> b_start_dt b < e \<and> s < b_end_dt b))
    \<and> (sc_foreign_key sc \<longrightarrow> (\<exists>r \<in> set (resources d). r_id r = rid))
    \<longrightarrow> (\<exists>row. post_bookings js sc now req d =
               (reply 201 (BookingJson row),
                d\<lparr>bookings := bookings d @ [row],
                  next_booking_id := next_booking_id d + 1\<rparr>)
             \<and> b_resource_id row = rid \<and> b_status row = REQUEST))
   \<and> ((bb_kind req = Some k \<and> k \<noteq> [] \<and> bb_resource_id req = Some rid \<and> rid \<noteq> 0
    \<and> bb_resource_name req = Some n \<and> n \<noteq> []
    \<and> truthy_date (bb_start_dt req) \<and> new_Date js (bb_start_dt req) = Some s
    \<and> truthy_date (bb_end_dt req) \<and> new_Date js (bb_end_dt req) = Some e \<and> s < e
    \<and> sc_int sc rid \<and> sc_time sc s \<and> sc_time sc e
    \<and> (\<forall>q. bb_quantity req = Some q \<longrightarrow> sc_int sc q)
    \<and> \<not> (\<exists>b \<in> set (bookings d). b_kind b = js_toUpperCase js k \<and> b_resource_id b = rid
              \<and> is_active b \<and> b_start_dt b < e \<and> s < b_end_dt b))
    \<and> sc_foreign_key sc \<and> \<not> (\<exists>r \<in> set (resources d). r_id r = rid)
    \<longrightarrow> status (fst (post_bookings js sc now req d)) = 500
        \<and> bookings (snd (post_bookings js sc now req d)) = bookings d
        \<and> resources (snd (post_bookings js sc now req d)) = resources d)
   \<and> bookings_check js sc req (d\<lparr>resources := rs\<rparr>) = bookings_check js sc req d
   \<and> status (fst (post_bookings js sc now req d)) \<noteq> 404"
proof -
  let ?v = "\<lparr>bv_kind = js_toUpperCase js k, bv_resource_id = rid,
                bv_resource_name = n, bv_start_dt = s, bv_end_dt = e,
                bv_quantity = num_or_null (bb_quantity req),
                bv_requester_name = str_or_null (bb_requester_name req),
                bv_requester_role = str_or_null (bb_requester_role req),
                bv_purpose = str_or_null (bb_purpose req)\<rparr>"
  have never: "status (fst (post_bookings js sc now req d)) \<noteq> 404"
    using post_bookings_status_cases [of js sc now req d] by auto
  have created: "(bb_kind req = Some k \<and> k \<noteq> [] \<and> bb_resource_id req = Some rid \<and> rid \<noteq> 0
    \<and> bb_resource_name req = Some n \<and> n \<noteq> []
    \<and> truthy_date (bb_start_dt req) \<and> new_Date js (bb_start_dt req) = Some s
    \<and> truthy_date (bb_end_dt req) \<and> new_Date js (bb_end_dt req) = Some e \<and> s < e
    \<and> sc_int sc rid \<and> sc_time sc s \<and> sc_time sc e
    \<and> (\<forall>q. bb_quantity req = Some q \<longrightarrow> sc_int sc q)
    \<and> \<not> (\<exists>b \<in> set (bookings d). b_kind b = js_toUpperCase js k \<and> b_resource_id b = rid
              \<and> is_active b \<and> b_start_dt b < e \<and> s < b_end_dt b))
    \<and> (sc_foreign_key sc \<longrightarrow> (\<exists>r \<in> set (resources d). r_id r = rid))
    \<longrightarrow> (\<exists>row. post_bookings js sc now req d =
               (reply 201 (BookingJson row),
                d\<lparr>bookings := bookings d @ [row],
                  next_booking_id := next_booking_id d + 1\<rparr>)
             \<and> b_resource_id row = rid \<and> b_status row = REQUEST)"
  proof (intro impI; elim conjE)
    assume f: "bb_kind req = Some k" "k \<noteq> []" "bb_resource_id req = Some rid" "rid \<noteq> 0"
      "bb_resource_name req = Some n" "n \<noteq> []"
      "truthy_date (bb_start_dt req)" "new_Date js (bb_start_dt req) = Some s"
      "truthy_date (bb_end_dt req)" "new_Date js (bb_end_dt req) = Some e" "s < e"
      "sc_int sc rid" "sc_time sc s" "sc_time sc e"
      and q: "\<forall>q. bb_quantity req = Some q \<longrightarrow> sc_int sc q"
      and free: "\<not> (\<exists>b \<in> set (bookings d). b_kind b = js_toUpperCase js k \<and> b_resource_id b = rid
              \<and> is_active b \<and> b_start_dt b < e \<and> s < b_end_dt b)"
      and fk: "sc_foreign_key sc \<longrightarrow> (\<exists>r \<in> set (resources d). r_id r = rid)"
    have "insert_booking sc now ?v d =
      (Inr \<lparr>b_id = next_booking_id d, b_kind = bv_kind ?v,
                    b_resource_id = bv_resource_id ?v,
                    b_resource_name = bv_resource_name ?v, b_start_dt = bv_start_dt ?v,
                    b_end_dt = bv_end_dt ?v, b_quantity = bv_quantity ?v,
                    b_status = REQUEST, b_requester_name = bv_requester_name ?v,
                    b_requester_role = bv_requester_role ?v,
                    b_purpose = bv_purpose ?v, b_created_at = now, b_updated_at = now,
                    b_started_at = None, b_ended_at = None, b_canceled_at = None\<rparr>,
      d\<lparr>bookings := bookings d @
           [\<lparr>b_id = next_booking_id d, b_kind = bv_kind ?v,
                    b_resource_id = bv_resource_id ?v,
                    b_resource_name = bv_resource_name ?v, b_start_dt = bv_start_dt ?v,
                    b_end_dt = bv_end_dt ?v, b_quantity = bv_quantity ?v,
                    b_status = REQUEST, b_requester_name = bv_requester_name ?v,
                    b_requester_role = bv_requester_role ?v,
                    b_purpose = bv_purpose ?v, b_created_at = now, b_updated_at = now,
                    b_started_at = None, b_ended_at = None, b_canceled_at = None\<rparr>],
         next_booking_id := next_booking_id d + 1\<rparr>)"
      using f(12-14) q fk by (intro insert_booking_accepted) (auto dest: num_or_null_Some)
    then show "\<exists>row. post_bookings js sc now req d =
               (reply 201 (BookingJson row),
                d\<lparr>bookings := bookings d @ [row],
                  next_booking_id := next_booking_id d + 1\<rparr>)
             \<and> b_resource_id row = rid \<and> b_status row = REQUEST"
      unfolding post_bookings_free [OF f free] bookings_insert_def
      by (intro exI [of _ "\<lparr>b_id = next_booking_id d, b_kind = bv_kind ?v,
                    b_resource_id = bv_resource_id ?v,
                    b_resource_name = bv_resource_name ?v, b_start_dt = bv_start_dt ?v,
                    b_end_dt = bv_end_dt ?v, b_quantity = bv_quantity ?v,
                    b_status = REQUEST, b_requester_name = bv_requester_name ?v,
                    b_requester_role = bv_requester_role ?v,
                    b_purpose = bv_purpose ?v, b_created_at = now, b_updated_at = now,
                    b_started_at = None, b_ended_at = None, b_canceled_at = None\<rparr>"]) simp
  qed
  have refused: "(bb_kind req = Some k \<and> k \<noteq> [] \<and> bb_resource_id req = Some rid \<and> rid \<noteq> 0
    \<and> bb_resource_name req = Some n \<and> n \<noteq> []
    \<and> truthy_date (bb_start_dt req) \<and> new_Date js (bb_start_dt req) = Some s
    \<and> truthy_date (bb_end_dt req) \<and> new_Date js (bb_end_dt req) = Some e \<and> s < e
    \<and> sc_int sc rid \<and> sc_time sc s \<and> sc_time sc e
    \<and> (\<forall>q. bb_quantity req = Some q \<longrightarrow> sc_int sc q)
    \<and> \<not> (\<exists>b \<in> set (bookings d). b_kind b = js_toUpperCase js k \<and> b_resource_id b = rid
              \<and> is_active b \<and> b_start_dt b < e \<and> s < b_end_dt b))
    \<and> sc_foreign_key sc \<and> \<not> (\<exists>r \<in> set (resources d). r_id r = rid)
    \<longrightarrow> status (fst (post_bookings js sc now req d)) = 500
        \<and> bookings (snd (post_bookings js sc now req d)) = bookings d
        \<and> resources (snd (post_bookings js sc now req d)) = resources d"
  proof (intro impI; elim conjE)
    assume f: "bb_kind req = Some k" "k \<noteq> []" "bb_resource_id req = Some rid" "rid \<noteq> 0"
      "bb_resource_name req = Some n" "n \<noteq> []"
      "truthy_date (bb_start_dt req)" "new_Date js (bb_start_dt req) = Some s"
      "truthy_date (bb_end_dt req)" "new_Date js (bb_end_dt req) = Some e" "s < e"
      "sc_int sc rid" "sc_time sc s" "sc_time sc e"
      and q: "\<forall>q. bb_quantity req = Some q \<longrightarrow> sc_int sc q"
      and free: "\<not> (\<exists>b \<in> set (bookings d). b_kind b = js_toUpperCase js k \<and> b_resource_id b = rid
              \<and> is_active b \<and> b_start_dt b < e \<and> s < b_end_dt b)"
      and fk: "sc_foreign_key sc" "\<not> (\<exists>r \<in> set (resources d). r_id r = rid)"
    have "insert_booking sc now ?v d =
       (Inl Foreign_key_violation, d\<lparr>next_booking_id := next_booking_id d + 1\<rparr>)"
      using f(12-14) q fk by (intro insert_booking_no_resource) (auto dest: num_or_null_Some)
    then show "status (fst (post_bookings js sc now req d)) = 500
        \<and> bookings (snd (post_bookings js sc now req d)) = bookings d
        \<and> resources (snd (post_bookings js sc now req d)) = resources d"
      unfolding post_bookings_free [OF f free] bookings_insert_def
      by (simp add: server_error_def reply_def)
  qed
  show ?thesis
    by (rule conjI [OF created conjI [OF refused conjI [OF bookings_check_resources never]]])
qed

theorem post_bookings_no_resource_check_witness:
  "resources init_db = []
   \<and> status (fst (post_bookings sample_js sample_schema 3 (room_body 600 660) init_db)) = 201
   \<and> map b_resource_id
        (bookings (snd (post_bookings sample_js sample_schema 3 (room_body 600 660) init_db)))
       = [7]
   \<and> status (fst (post_bookings sample_js keyed_schema 3 (room_body 600 660) init_db)) = 500
   \<and> bookings (snd (post_bookings sample_js keyed_schema 3 (room_body 600 660) init_db)) = []"
proof -
  have open_h: "bb_kind (room_body 600 660) = Some ''room'' \<and> ''room'' \<noteq> []
    \<and> bb_resource_id (room_body 600 660) = Some 7 \<and> (7::int) \<noteq> 0
    \<and> bb_resource_name (room_body 600 660) = Some ''Room A'' \<and> ''Room A'' \<noteq> []
    \<and> truthy_date (bb_start_dt (room_body 600 660))
    \<and> new_Date sample_js (bb_start_dt (room_body 600 660)) = Some 600
    \<and> truthy_date (bb_end_dt (room_body 600 660))
    \<and> new_Date sample_js (bb_end_dt (room_body 600 660)) = Some 660 \<and> (600::int) < 660
    \<and> sc_int sample_schema 7 \<and> sc_time sample_schema 600 \<and> sc_time sample_schema 660
    \<and> (\<forall>q. bb_quantity (room_body 600 660) = Some q \<longrightarrow> sc_int sample_schema q)
    \<and> \<not> (\<exists>b \<in> set (bookings init_db). b_kind b = js_toUpperCase sample_js ''room''
              \<and> b_resource_id b = 7
              \<and> is_active b \<and> b_start_dt b < 660 \<and> 600 < b_end_dt b)"
    by (simp add: room_body_def truthy_date_def new_Date_def sample_schema_def init_db_def)
  have keyed_h: "bb_kind (room_body 600 660) = Some ''room'' \<and> ''room'' \<noteq> []
    \<and> bb_resource_id (room_body 600 660) = Some 7 \<and> (7::int) \<noteq> 0
    \<and> bb_resource_name (room_body 600 660) = Some ''Room A'' \<and> ''Room A'' \<noteq> []
    \<and> truthy_date (bb_start_dt (room_body 600 660))
    \<and> new_Date sample_js (bb_start_dt (room_body 600 660)) = Some 600
    \<and> truthy_date (bb_end_dt (room_body 600 660))
    \<and> new_Date sample_js (bb_end_dt (room_body 600 660)) = Some 660 \<and> (600::int) < 660
    \<and> sc_int keyed_schema 7 \<and> sc_time keyed_schema 600 \<and> sc_time keyed_schema 660
    \<and> (\<forall>q. bb_quantity (room_body 600 660) = Some q \<longrightarrow> sc_int keyed_schema q)
    \<and> \<not> (\<exists>b \<in> set (bookings init_db). b_kind b = js_toUpperCase sample_js ''room''
              \<and> b_resource_id b = 7
              \<and> is_active b \<and> b_start_dt b < 660 \<and> 600 < b_end_dt b)"
    by (simp add: room_body_def truthy_date_def new_Date_def sample_schema_def
        keyed_schema_def init_db_def)
  have no_key: "sc_foreign_key sample_schema \<longrightarrow> (\<exists>r \<in> set (resources init_db). r_id r = 7)"
    by (simp add: sample_schema_def)
  have key: "sc_foreign_key keyed_schema \<and> \<not> (\<exists>r \<in> set (resources init_db). r_id r = 7)"
    by (simp add: keyed_schema_def init_db_def)
  have empty: "resources init_db = []" "bookings init_db = []" by (simp_all add: init_db_def)
  note a = post_bookings_no_resource_check [where js = sample_js and sc = sample_schema
      and req = "room_body 600 660" and d = init_db and now = 3 and k = "''room''" and rid = 7
      and n = "''Room A''" and s = 600 and e = 660,
      THEN conjunct1, THEN mp, OF conjI [OF open_h no_key]]
  note b = post_bookings_no_resource_check [where js = sample_js and sc = keyed_schema
      and req = "room_body 600 660" and d = init_db and now = 3 and k = "''room''" and rid = 7
      and n = "''Room A''" and s = 600 and e = 660,
      THEN conjunct2, THEN conjunct1, THEN mp, OF conjI [OF keyed_h key]]
  from a have a': "status (fst (post_bookings sample_js sample_schema 3 (room_body 600 660) init_db)) = 201
     \<and> map b_resource_id
        (bookings (snd (post_bookings sample_js sample_schema 3 (room_body 600 660) init_db)))
       = [7]"
    by (auto simp: reply_def empty)
  from b empty have b': "status (fst (post_bookings sample_js keyed_schema 3 (room_body 600 660) init_db)) = 500
     \<and> bookings (snd (post_bookings sample_js keyed_schema 3 (room_body 600 660) init_db)) = []"
    by simp
  from empty(1) a' b' show ?thesis by simp
qed

text \<open>
  The claim C10 as it is written fails on a request that has all its fields, a valid
  window and nothing to overlap, but starts at the number 0 (the epoch), and on one for
  a resource identifier no integer column holds: the answers are 400 and 500, and
  nothing is inserted.
\<close>

theorem post_bookings_epoch_counterexample:
  "bookings init_db = []
   \<and> new_Date sample_js (bb_start_dt (room_body 0 1000)) = Some 0
   \<and> new_Date sample_js (bb_end_dt (room_body 0 1000)) = Some 1000
   \<and> (0::int) < 1000
   \<and> status (fst (post_bookings sample_js sample_schema 5 (room_body 0 1000) init_db)) = 400
   \<and> bookings (snd (post_bookings sample_js sample_schema 5 (room_body 0 1000) init_db)) = []
   \<and> status (fst (post_bookings sample_js sample_schema 5
        ((room_body 600 660)\<lparr>bb_resource_id := Some 1000000000000000000000\<rparr>) init_db)) = 500
   \<and> bookings (snd (post_bookings sample_js sample_schema 5
        ((room_body 600 660)\<lparr>bb_resource_id := Some 1000000000000000000000\<rparr>) init_db)) = []"
  by code_simp

subsection \<open>Lifecycle transitions\<close>

lemma update_bookings_refused:
  "update_bookings sc f None d = (Inl Data_exception, d)"
  "\<not> sc_int sc i \<Longrightarrow> update_bookings sc f (Some i) d = (Inl Data_exception, d)"
  by (simp_all add: update_bookings_def)

lemma update_bookings_none:
  assumes "sc_int sc i" "\<forall>b \<in> set (bookings d). b_id b \<noteq> i"
  shows "update_bookings sc f (Some i) d = (Inr [], d)"
proof -
  have "filter (\<lambda>b. b_id b = i) (bookings d) = []"
    using assms(2) by (simp add: filter_empty_conv)
  moreover have "map (\<lambda>b. if b_id b = i then f b else b) (bookings d) = bookings d"
    using assms(2) by (simp add: map_idI)
  ultimately show ?thesis using assms(1) by (simp add: update_bookings_def)
qed

lemma update_bookings_some:
  assumes "sc_int sc i" "\<exists>b \<in> set (bookings d). b_id b = i"
  shows "\<exists>old \<in> set (bookings d). b_id old = i \<and>
           (\<exists>rest. update_bookings sc f (Some i) d =
              (Inr (f old # rest),
               d\<lparr>bookings := map (\<lambda>b. if b_id b = i then f b else b) (bookings d)\<rparr>))"
proof -
  from assms(2) have "filter (\<lambda>b. b_id b = i) (bookings d) \<noteq> []"
    by (simp add: filter_empty_conv)
  then obtain old rest where fr: "filter (\<lambda>b. b_id b = i) (bookings d) = old # rest"
    by (cases "filter (\<lambda>b. b_id b = i) (bookings d)") auto
  then have "old \<in> set (filter (\<lambda>b. b_id b = i) (bookings d))" by simp
  then have "old \<in> set (bookings d)" "b_id old = i" by simp_all
  moreover have "update_bookings sc f (Some i) d =
      (Inr (f old # map f rest),
       d\<lparr>bookings := map (\<lambda>b. if b_id b = i then f b else b) (bookings d)\<rparr>)"
    using fr assms(1) by (simp add: update_bookings_def)
  ultimately show ?thesis by blast
qed

text \<open>
  C6 (as amended). Take a path identifier that is a whole number the integer column
  holds. With a booking of that identifier in the table, \<open>start\<close> sets its status to
  ONGOING and stamps \<open>started_at\<close>, \<open>finish\<close> sets SUCCESS and stamps \<open>ended_at\<close>,
  \<open>cancel\<close> sets CANCEL and stamps \<open>canceled_at\<close>; each also sets \<open>updated_at\<close>, leaves
  the other rows as they are and answers 200 with the updated row. With no such booking
  each answers 404 and the store is unchanged. For a path identifier that is not a whole
  number, or that the column does not hold, each answers 500 and the store is unchanged.
\<close>

theorem transitions_stamp_or_not_found:
  "(sc_int sc i \<and> (\<exists>b \<in> set (bookings d). b_id b = i) \<longrightarrow>
      (\<exists>old \<in> set (bookings d). b_id old = i \<and>
         bookings_start sc now (Some i) d =
           (reply 200 (BookingJson
              (old\<lparr>b_status := ONGOING, b_started_at := Some now, b_updated_at := now\<rparr>)),
            d\<lparr>bookings := map (\<lambda>b. if b_id b = i
                 then b\<lparr>b_status := ONGOING, b_started_at := Some now, b_updated_at := now\<rparr>
                 else b) (bookings d)\<rparr>))
      \<and> (\<exists>old \<in> set (bookings d). b_id old = i \<and>
         bookings_finish sc now (Some i) d =
           (reply 200 (BookingJson
              (old\<lparr>b_status := SUCCESS, b_ended_at := Some now, b_updated_at := now\<rparr>)),
            d\<lparr>bookings := map (\<lambda>b. if b_id b = i
                 then b\<lparr>b_status := SUCCESS, b_ended_at := Some now, b_updated_at := now\<rparr>
                 else b) (bookings d)\<rparr>))
      \<and> (\<exists>old \<in> set (bookings d). b_id old = i \<and>
         bookings_cancel sc now (Some i) d =
           (reply 200 (BookingJson
              (old\<lparr>b_status := CANCEL, b_canceled_at := Some now, b_updated_at := now\<rparr>)),
            d\<lparr>bookings := map (\<lambda>b. if b_id b = i
                 then b\<lparr>b_status := CANCEL, b_canceled_at := Some now, b_updated_at := now\<rparr>
                 else b) (bookings d)\<rparr>)))
   \<and> (sc_int sc i \<and> (\<forall>b \<in> set (bookings d). b_id b \<noteq> i) \<longrightarrow>
        bookings_start sc now (Some i) d = (reply 404 (Error ''Not found''), d)
        \<and> bookings_finish sc now (Some i) d = (reply 404 (Error ''Not found''), d)
        \<and> bookings_cancel sc now (Some i) d = (reply 404 (Error ''Not found''), d))
   \<and> (\<not> sc_int sc i \<longrightarrow>
        bookings_start sc now (Some i) d = (reply 500 (Error ''Server error''), d)
        \<and> bookings_finish sc now (Some i) d = (reply 500 (Error ''Server error''), d)
        \<and> bookings_cancel sc now (Some i) d = (reply 500 (Error ''Server error''), d))
   \<and> bookings_start sc now None d = (reply 500 (Error ''Server error''), d)
   \<and> bookings_finish sc now None d = (reply 500 (Error ''Server error''), d)
   \<and> bookings_cancel sc now None d = (reply 500 (Error ''Server error''), d)"
proof -
  have missing: "sc_int sc i \<and> (\<forall>b \<in> set (bookings d). b_id b \<noteq> i) \<longrightarrow>
        bookings_start sc now (Some i) d = (reply 404 (Error ''Not found''), d)
        \<and> bookings_finish sc now (Some i) d = (reply 404 (Error ''Not found''), d)
        \<and> bookings_cancel sc now (Some i) d = (reply 404 (Error ''Not found''), d)"
    using update_bookings_none [of sc i d]
    by (simp add: bookings_start_def bookings_finish_def bookings_cancel_def
        transition_reply_def)
  have refused: "\<not> sc_int sc i \<longrightarrow>
        bookings_start sc now (Some i) d = (reply 500 (Error ''Server error''), d)
        \<and> bookings_finish sc now (Some i) d = (reply 500 (Error ''Server error''), d)
        \<and> bookings_cancel sc now (Some i) d = (reply 500 (Error ''Server error''), d)"
    by (simp add: bookings_start_def bookings_finish_def bookings_cancel_def
        transition_reply_def update_bookings_refused server_error_def)
  have unread: "bookings_start sc now None d = (reply 500 (Error ''Server error''), d)
   \<and> bookings_finish sc now None d = (reply 500 (Error ''Server error''), d)
   \<and> bookings_cancel sc now None d = (reply 500 (Error ''Server error''), d)"
    by (simp add: bookings_start_def bookings_finish_def bookings_cancel_def
        transition_reply_def update_bookings_refused server_error_def)
  have started: "\<exists>old \<in> set (bookings d). b_id old = i \<and>
         bookings_start sc now (Some i) d =
           (reply 200 (BookingJson
              (old\<lparr>b_status := ONGOING, b_started_at := Some now, b_updated_at := now\<rparr>)),
            d\<lparr>bookings := map (\<lambda>b. if b_id b = i
                 then b\<lparr>b_status := ONGOING, b_started_at := Some now, b_updated_at := now\<rparr>
                 else b) (bookings d)\<rparr>)"
    if "sc_int sc i" "\<exists>b \<in> set (bookings d). b_id b = i"
    using update_bookings_some [OF that, of "start_row now"]
    by (auto simp: bookings_start_def start_row_def transition_reply_def)
  have finished: "\<exists>old \<in> set (bookings d). b_id old = i \<and>
         bookings_finish sc now (Some i) d =
           (reply 200 (BookingJson
              (old\<lparr>b_status := SUCCESS, b_ended_at := Some now, b_updated_at := now\<rparr>)),
            d\<lparr>bookings := map (\<lambda>b. if b_id b = i
                 then b\<lparr>b_status := SUCCESS, b_ended_at := Some now, b_updated_at := now\<rparr>
                 else b) (bookings d)\<rparr>)"
    if "sc_int sc i" "\<exists>b \<in> set (bookings d). b_id b = i"
    using update_bookings_some [OF that, of "finish_row now"]
    by (auto simp: bookings_finish_def finish_row_def transition_reply_def)
  have canceled: "\<exists>old \<in> set (bookings d). b_id old = i \<and>
         bookings_cancel sc now (Some i) d =
           (reply 200 (BookingJson
              (old\<lparr>b_status := CANCEL, b_canceled_at := Some now, b_updated_at := now\<rparr>)),
            d\<lparr>bookings := map (\<lambda>b. if b_id b = i
                 then b\<lparr>b_status := CANCEL, b_canceled_at := Some now, b_updated_at := now\<rparr>
                 else b) (bookings d)\<rparr>)"
    if "sc_int sc i" "\<exists>b \<in> set (bookings d). b_id b = i"
    using update_bookings_some [OF that, of "cancel_row now"]
    by (auto simp: bookings_cancel_def cancel_row_def transition_reply_def)
  from started finished canceled
  have found: "sc_int sc i \<and> (\<exists>b \<in> set (bookings d). b_id b = i) \<longrightarrow>
      (\<exists>old \<in> set (bookings d). b_id old = i \<and>
         bookings_start sc now (Some i) d =
           (reply 200 (BookingJson
              (old\<lparr>b_status := ONGOING, b_started_at := Some now, b_updated_at := now\<rparr>)),
            d\<lparr>bookings := map (\<lambda>b. if b_id b = i
                 then b\<lparr>b_status := ONGOING, b_started_at := Some now, b_updated_at := now\<rparr>
                 else b) (bookings d)\<rparr>))
      \<and> (\<exists>old \<in> set (bookings d). b_id old = i \<and>
         bookings_finish sc now (Some i) d =
           (reply 200 (BookingJson
              (old\<lparr>b_status := SUCCESS, b_ended_at := Some now, b_updated_at := now\<rparr>)),
            d\<lparr>bookings := map (\<lambda>b. if b_id b = i
                 then b\<lparr>b_status := SUCCESS, b_ended_at := Some now, b_updated_at := now\<rparr>
                 else b) (bookings d)\<rparr>))
      \<and> (\<exists>old \<in> set (bookings d). b_id old = i \<and>
         bookings_cancel sc now (Some i) d =
           (reply 200 (BookingJson
              (old\<lparr>b_status := CANCEL, b_canceled_at := Some now, b_updated_at := now\<rparr>)),
            d\<lparr>bookings := map (\<lambda>b. if b_id b = i
                 then b\<lparr>b_status := CANCEL, b_canceled_at := Some now, b_updated_at := now\<rparr>
                 else b) (bookings d)\<rparr>))"
    by (intro impI conjI; elim conjE)
  show ?thesis
    by (rule conjI [OF found conjI [OF missing conjI [OF refused unread]]])
qed

theorem transitions_stamp_or_not_found_witness:
  "status (fst (bookings_start sample_schema 20 (Some 1) one_booking)) = 200
   \<and> map b_status (bookings (snd (bookings_start sample_schema 20 (Some 1) one_booking)))
       = [ONGOING]
   \<and> map b_started_at (bookings (snd (bookings_start sample_schema 20 (Some 1) one_booking)))
       = [Some 20]
   \<and> status (fst (bookings_finish sample_schema 20 (Some 1) one_booking)) = 200
   \<and> status (fst (bookings_cancel sample_schema 20 (Some 1) one_booking)) = 200
   \<and> bookings_start sample_schema 20 (Some 2) one_booking
       = (reply 404 (Error ''Not found''), one_booking)
   \<and> bookings_start sample_schema 20 (Some 1000000000000000000000) one_booking
       = (reply 500 (Error ''Server error''), one_booking)"
proof -
  have fits: "sc_int sample_schema 1" "sc_int sample_schema 2"
    "\<not> sc_int sample_schema 1000000000000000000000" by code_simp+
  have present: "\<exists>b \<in> set (bookings one_booking). b_id b = 1" by code_simp
  have missing: "\<forall>b \<in> set (bookings one_booking). b_id b \<noteq> 2" by code_simp
  have one: "map b_id (bookings one_booking) = [1]" by code_simp
  note t = transitions_stamp_or_not_found [of sample_schema _ one_booking 20]
  note found = t [of 1, THEN conjunct1, THEN mp, OF conjI [OF fits(1) present]]
  from found [THEN conjunct1] one
  have a: "status (fst (bookings_start sample_schema 20 (Some 1) one_booking)) = 200
   \<and> map b_status (bookings (snd (bookings_start sample_schema 20 (Some 1) one_booking)))
       = [ONGOING]
   \<and> map b_started_at (bookings (snd (bookings_start sample_schema 20 (Some 1) one_booking)))
       = [Some 20]"
    by (cases "bookings one_booking") (auto simp: reply_def)
  from found [THEN conjunct2]
  have b: "status (fst (bookings_finish sample_schema 20 (Some 1) one_booking)) = 200
   \<and> status (fst (bookings_cancel sample_schema 20 (Some 1) one_booking)) = 200"
    by (auto simp: reply_def)
  note c = t [of 2, THEN conjunct2, THEN conjunct1, THEN mp, OF conjI [OF fits(2) missing],
      THEN conjunct1]
  note e = t [of 1000000000000000000000, THEN conjunct2, THEN conjunct2, THEN conjunct1,
      THEN mp, OF fits(3), THEN conjunct1]
  from a b c e show ?thesis by simp
qed

text \<open>
  The claim C6 as it is written, for every booking id with no booking, fails on an
  identifier beyond every integer column and on a path parameter that is not a number:
  no booking has it, yet the answer is 500, not 404.
\<close>

theorem transition_bad_id_counterexample:
  "map b_id (bookings one_booking) = [1]
   \<and> status (fst (bookings_start sample_schema 20 (Some 1000000000000000000000) one_booking))
       = 500
   \<and> status (fst (bookings_finish sample_schema 20 None one_booking)) = 500
   \<and> status (fst (bookings_cancel sample_schema 20 None one_booking)) = 500"
  by code_simp

subsection \<open>Resource creation\<close>

lemma post_resources_checked:
  assumes "rb_kind req = Some k" "k \<noteq> []" "rb_name req = Some n" "n \<noteq> []"
    and "\<forall>q. rb_quantity req = Some q \<longrightarrow> 0 \<le> q"
    and "\<forall>s. rb_status req = Some s \<longrightarrow> s \<in> {''Available'', ''Maintenance'', ''Inactive''}"
  shows "post_resources js sc req d =
     (case insert_resource sc (js_toUpperCase js k) n (rb_subcategory req) (rb_type req)
             (case rb_quantity req of None \<Rightarrow> 1 | Some q \<Rightarrow> q)
             (case rb_status req of None \<Rightarrow> ''Available'' | Some s \<Rightarrow> s) d of
        (Inl err, d') \<Rightarrow> (resource_error err, d')
      | (Inr row, d') \<Rightarrow> (reply 201 (ResourceJson (resource_row.truncate row)), d'))"
  using assms
  by (cases "rb_quantity req"; cases "rb_status req")
     (auto simp: post_resources_def truthy_str_def resource_statuses_def Let_def)

lemma post_resources_refused:
  assumes "rb_kind req = Some k" "k \<noteq> []" "rb_name req = Some n" "n \<noteq> []"
    and "\<forall>q. rb_quantity req = Some q \<longrightarrow> 0 \<le> q"
    and "\<forall>s. rb_status req = Some s \<longrightarrow> s \<in> {''Available'', ''Maintenance'', ''Inactive''}"
    and "\<not> sc_int sc (case rb_quantity req of None \<Rightarrow> 1 | Some q \<Rightarrow> q)"
  shows "post_resources js sc req d = (reply 500 (Error ''Server error''), d)"
  using assms(7) unfolding post_resources_checked [OF assms(1-6)]
  by (simp add: insert_resource_def resource_error_def server_error_def)

lemma post_resources_duplicate:
  assumes "rb_kind req = Some k" "k \<noteq> []" "rb_name req = Some n" "n \<noteq> []"
    and "\<forall>q. rb_quantity req = Some q \<longrightarrow> 0 \<le> q"
    and "\<forall>s. rb_status req = Some s \<longrightarrow> s \<in> {''Available'', ''Maintenance'', ''Inactive''}"
    and "sc_int sc (case rb_quantity req of None \<Rightarrow> 1 | Some q \<Rightarrow> q)"
    and "\<exists>r \<in> set (resources d). r_kind r = js_toUpperCase js k \<and> r_name r = n"
  shows "post_resources js sc req d =
           (reply 409 (Error ''Duplicate resource name for this kind''),
            d\<lparr>next_resource_id := next_resource_id d + 1\<rparr>)"
  using assms(7,8) unfolding post_resources_checked [OF assms(1-6)]
  by (simp add: insert_resource_def resource_error_def)

lemma post_resources_fresh:
  assumes "rb_kind req = Some k" "k \<noteq> []" "rb_name req = Some n" "n \<noteq> []"
    and "\<forall>q. rb_quantity req = Some q \<longrightarrow> 0 \<le> q"
    and "\<forall>s. rb_status req = Some s \<longrightarrow> s \<in> {''Available'', ''Maintenance'', ''Inactive''}"
    and "sc_int sc (case rb_quantity req of None \<Rightarrow> 1 | Some q \<Rightarrow> q)"
    and "\<not> (\<exists>r \<in> set (resources d). r_kind r = js_toUpperCase js k \<and> r_name r = n)"
  shows "\<exists>row. post_resources js sc req d =
            (reply 201 (ResourceJson (resource_row.truncate row)),
             d\<lparr>resources := resources d @ [row],
               next_resource_id := next_resource_id d + 1\<rparr>)
          \<and> r_kind row = js_toUpperCase js k \<and> r_name row = n
          \<and> r_quantity row = (case rb_quantity req of None \<Rightarrow> 1 | Some q \<Rightarrow> q)
          \<and> r_status row = (case rb_status req of None \<Rightarrow> ''Available'' | Some s \<Rightarrow> s)"
  using assms(7,8) unfolding post_resources_checked [OF assms(1-6)]
  by (intro exI [of _ "\<lparr>r_id = next_resource_id d, r_kind = js_toUpperCase js k, r_name = n,
        r_subcategory = rb_subcategory req, r_type = rb_type req,
        r_quantity = (case rb_quantity req of None \<Rightarrow> 1 | Some q \<Rightarrow> q),
        r_status = (case rb_status req of None \<Rightarrow> ''Available'' | Some s \<Rightarrow> s),
        r_updated_at = None\<rparr>"])
     (auto simp: insert_resource_def Let_def)

lemma post_resources_invalid:
  "\<not> truthy_str (rb_kind req) \<or> \<not> truthy_str (rb_name req) \<Longrightarrow>
     post_resources js sc req d = (reply 400 (Error ''kind and name are required''), d)"
  "rb_quantity req = Some q \<Longrightarrow> q < 0 \<Longrightarrow>
     status (fst (post_resources js sc req d)) = 400 \<and> snd (post_resources js sc req d) = d"
  "rb_status req = Some s \<Longrightarrow> s \<notin> {''Available'', ''Maintenance'', ''Inactive''} \<Longrightarrow>
     status (fst (post_resources js sc req d)) = 400 \<and> snd (post_resources js sc req d) = d"
  by (auto simp: post_resources_def Let_def reply_def resource_statuses_def)

lemma post_resources_created_valid:
  assumes "status (fst (post_resources js sc req d)) = 201"
  shows "\<exists>k n. rb_kind req = Some k \<and> k \<noteq> [] \<and> rb_name req = Some n \<and> n \<noteq> []
     \<and> (\<forall>q. rb_quantity req = Some q \<longrightarrow> 0 \<le> q)
     \<and> (\<forall>s. rb_status req = Some s \<longrightarrow> s \<in> {''Available'', ''Maintenance'', ''Inactive''})
     \<and> sc_int sc (case rb_quantity req of None \<Rightarrow> 1 | Some q \<Rightarrow> q)
     \<and> \<not> (\<exists>r \<in> set (resources d). r_kind r = js_toUpperCase js k \<and> r_name r = n)"
  using assms
  by (auto simp: post_resources_def Let_def reply_def resource_statuses_def truthy_str_def
      insert_resource_def resource_error_def server_error_def
      split: if_splits option.splits)

text \<open>
  C7 (as amended). Resource creation answers 400 when \<open>kind\<close> or \<open>name\<close> is missing, when
  the quantity is negative and when the status is not one of Available, Maintenance,
  Inactive, each time leaving the store as it was. For a valid request whose quantity
  the integer column holds: against a table with no row of the same upper-cased kind and
  name it appends a row with the kind upper-cased, the quantity 1 and the status
  Available when these are omitted, and answers 201; with such a row in the table it
  answers 409 and both tables are unchanged. In particular the same request sent a second
  time after a 201 is answered with 409. A valid request whose quantity the column does
  not hold is answered with 500, also when the (kind, name) pair is already taken.
\<close>

theorem post_resources_contract:
  "(\<not> truthy_str (rb_kind req) \<or> \<not> truthy_str (rb_name req) \<longrightarrow>
      post_resources js sc req d = (reply 400 (Error ''kind and name are required''), d))
   \<and> ((\<exists>q. rb_quantity req = Some q \<and> q < 0) \<longrightarrow>
        status (fst (post_resources js sc req d)) = 400 \<and> snd (post_resources js sc req d) = d)
   \<and> ((\<exists>s. rb_status req = Some s \<and> s \<notin> {''Available'', ''Maintenance'', ''Inactive''}) \<longrightarrow>
        status (fst (post_resources js sc req d)) = 400 \<and> snd (post_resources js sc req d) = d)
   \<and> (rb_kind req = Some k \<and> k \<noteq> [] \<and> rb_name req = Some n \<and> n \<noteq> []
        \<and> (\<forall>q. rb_quantity req = Some q \<longrightarrow> 0 \<le> q)
        \<and> (\<forall>s. rb_status req = Some s \<longrightarrow> s \<in> {''Available'', ''Maintenance'', ''Inactive''})
        \<and> sc_int sc (case rb_quantity req of None \<Rightarrow> 1 | Some q \<Rightarrow> q)
      \<longrightarrow>
        ((\<exists>r \<in> set (resources d). r_kind r = js_toUpperCase js k \<and> r_name r = n) \<longrightarrow>
           status (fst (post_resources js sc req d)) = 409
           \<and> payload (fst (post_resources js sc req d))
               = Error ''Duplicate resource name for this kind''
           \<and> resources (snd (post_resources js sc req d)) = resources d
           \<and> bookings (snd (post_resources js sc req d)) = bookings d)
        \<and> (\<not> (\<exists>r \<in> set (resources d). r_kind r = js_toUpperCase js k \<and> r_name r = n) \<longrightarrow>
           (\<exists>row. post_resources js sc req d =
                    (reply 201 (ResourceJson (resource_row.truncate row)),
                     d\<lparr>resources := resources d @ [row],
                       next_resource_id := next_resource_id d + 1\<rparr>)
                  \<and> r_kind row = js_toUpperCase js k \<and> r_name row = n
                  \<and> r_quantity row = (case rb_quantity req of None \<Rightarrow> 1 | Some q \<Rightarrow> q)
                  \<and> r_status row =
                      (case rb_status req of None \<Rightarrow> ''Available'' | Some s \<Rightarrow> s))))
   \<and> (rb_kind req = Some k \<and> k \<noteq> [] \<and> rb_name req = Some n \<and> n \<noteq> []
        \<and> (\<forall>q. rb_quantity req = Some q \<longrightarrow> 0 \<le> q)
        \<and> (\<forall>s. rb_status req = Some s \<longrightarrow> s \<in> {''Available'', ''Maintenance'', ''Inactive''})
        \<and> \<not> sc_int sc (case rb_quantity req of None \<Rightarrow> 1 | Some q \<Rightarrow> q)
      \<longrightarrow> post_resources js sc req d = (reply 500 (Error ''Server error''), d))
   \<and> (status (fst (post_resources js sc req d)) = 201 \<longrightarrow>
        status (fst (post_resources js sc req (snd (post_resources js sc req d)))) = 409
        \<and> resources (snd (post_resources js sc req (snd (post_resources js sc req d))))
            = resources (snd (post_resources js sc req d)))"
proof -
  have again: "status (fst (post_resources js sc req (snd (post_resources js sc req d)))) = 409
        \<and> resources (snd (post_resources js sc req (snd (post_resources js sc req d))))
            = resources (snd (post_resources js sc req d))"
    if "status (fst (post_resources js sc req d)) = 201"
  proof -
    from post_resources_created_valid [OF that] obtain k' n' where
      v: "rb_kind req = Some k'" "k' \<noteq> []" "rb_name req = Some n'" "n' \<noteq> []"
        "\<forall>q. rb_quantity req = Some q \<longrightarrow> 0 \<le> q"
        "\<forall>s. rb_status req = Some s \<longrightarrow> s \<in> {''Available'', ''Maintenance'', ''Inactive''}"
        "sc_int sc (case rb_quantity req of None \<Rightarrow> 1 | Some q \<Rightarrow> q)"
      and fresh: "\<not> (\<exists>r \<in> set (resources d). r_kind r = js_toUpperCase js k' \<and> r_name r = n')"
      by blast
    from post_resources_fresh [OF v fresh] obtain row where
      "post_resources js sc req d =
            (reply 201 (ResourceJson (resource_row.truncate row)),
             d\<lparr>resources := resources d @ [row],
               next_resource_id := next_resource_id d + 1\<rparr>)"
      "r_kind row = js_toUpperCase js k'" "r_name row = n'"
      by blast
    then have "\<exists>r \<in> set (resources (snd (post_resources js sc req d))).
                 r_kind r = js_toUpperCase js k' \<and> r_name r = n'"
      by simp
    from post_resources_duplicate [OF v this] show ?thesis by (simp add: reply_def)
  qed
  have c1: "\<not> truthy_str (rb_kind req) \<or> \<not> truthy_str (rb_name req) \<longrightarrow>
      post_resources js sc req d = (reply 400 (Error ''kind and name are required''), d)"
    using post_resources_invalid(1) [of req js sc d] by (rule impI)
  have c2: "(\<exists>q. rb_quantity req = Some q \<and> q < 0) \<longrightarrow>
        status (fst (post_resources js sc req d)) = 400 \<and> snd (post_resources js sc req d) = d"
    using post_resources_invalid(2) [of req _ js sc d] by blast
  have c3: "(\<exists>s. rb_status req = Some s \<and> s \<notin> {''Available'', ''Maintenance'', ''Inactive''}) \<longrightarrow>
        status (fst (post_resources js sc req d)) = 400 \<and> snd (post_resources js sc req d) = d"
    using post_resources_invalid(3) [of req _ js sc d] by blast
  have c4: "rb_kind req = Some k \<and> k \<noteq> [] \<and> rb_name req = Some n \<and> n \<noteq> []
        \<and> (\<forall>q. rb_quantity req = Some q \<longrightarrow> 0 \<le> q)
        \<and> (\<forall>s. rb_status req = Some s \<longrightarrow> s \<in> {''Available'', ''Maintenance'', ''Inactive''})
        \<and> sc_int sc (case rb_quantity req of None \<Rightarrow> 1 | Some q \<Rightarrow> q)
      \<longrightarrow>
        ((\<exists>r \<in> set (resources d). r_kind r = js_toUpperCase js k \<and> r_name r = n) \<longrightarrow>
           status (fst (post_resources js sc req d)) = 409
           \<and> payload (fst (post_resources js sc req d))
               = Error ''Duplicate resource name for this kind''
           \<and> resources (snd (post_resources js sc req d)) = resources d
           \<and> bookings (snd (post_resources js sc req d)) = bookings d)
        \<and> (\<not> (\<exists>r \<in> set (resources d). r_kind r = js_toUpperCase js k \<and> r_name r = n) \<longrightarrow>
           (\<exists>row. post_resources js sc req d =
                    (reply 201 (ResourceJson (resource_row.truncate row)),
                     d\<lparr>resources := resources d @ [row],
                       next_resource_id := next_resource_id d + 1\<rparr>)
                  \<and> r_kind row = js_toUpperCase js k \<and> r_name row = n
                  \<and> r_quantity row = (case rb_quantity req of None \<Rightarrow> 1 | Some q \<Rightarrow> q)
                  \<and> r_status row =
                      (case rb_status req of None \<Rightarrow> ''Available'' | Some s \<Rightarrow> s)))"
  proof (intro impI conjI; elim conjE)
    assume v: "rb_kind req = Some k" "k \<noteq> []" "rb_name req = Some n" "n \<noteq> []"
      "\<forall>q. rb_quantity req = Some q \<longrightarrow> 0 \<le> q"
      "\<forall>s. rb_status req = Some s \<longrightarrow> s \<in> {''Available'', ''Maintenance'', ''Inactive''}"
      "sc_int sc (case rb_quantity req of None \<Rightarrow> 1 | Some q \<Rightarrow> q)"
    {
      assume dup: "\<exists>r \<in> set (resources d). r_kind r = js_toUpperCase js k \<and> r_name r = n"
      note r = post_resources_duplicate [OF v dup]
      show "status (fst (post_resources js sc req d)) = 409"
        unfolding r by (simp add: reply_def)
      show "payload (fst (post_resources js sc req d))
               = Error ''Duplicate resource name for this kind''"
        unfolding r by (simp add: reply_def)
      show "resources (snd (post_resources js sc req d)) = resources d"
        unfolding r by simp
      show "bookings (snd (post_resources js sc req d)) = bookings d"
        unfolding r by simp
    next
      assume "\<not> (\<exists>r \<in> set (resources d). r_kind r = js_toUpperCase js k \<and> r_name r = n)"
      from post_resources_fresh [OF v this]
      show "\<exists>row. post_resources js sc req d =
                    (reply 201 (ResourceJson (resource_row.truncate row)),
                     d\<lparr>resources := resources d @ [row],
                       next_resource_id := next_resource_id d + 1\<rparr>)
                  \<and> r_kind row = js_toUpperCase js k \<and> r_name row = n
                  \<and> r_quantity row = (case rb_quantity req of None \<Rightarrow> 1 | Some q \<Rightarrow> q)
                  \<and> r_status row =
                      (case rb_status req of None \<Rightarrow> ''Available'' | Some s \<Rightarrow> s)" .
    }
  qed
  have c5: "rb_kind req = Some k \<and> k \<noteq> [] \<and> rb_name req = Some n \<and> n \<noteq> []
        \<and> (\<forall>q. rb_quantity req = Some q \<longrightarrow> 0 \<le> q)
        \<and> (\<forall>s. rb_status req = Some s \<longrightarrow> s \<in> {''Available'', ''Maintenance'', ''Inactive''})
        \<and> \<not> sc_int sc (case rb_quantity req of None \<Rightarrow> 1 | Some q \<Rightarrow> q)
      \<longrightarrow> post_resources js sc req d = (reply 500 (Error ''Server error''), d)"
  proof (intro impI; elim conjE)
    assume v: "rb_kind req = Some k" "k \<noteq> []" "rb_name req = Some n" "n \<noteq> []"
      "\<forall>q. rb_quantity req = Some q \<longrightarrow> 0 \<le> q"
      "\<forall>s. rb_status req = Some s \<longrightarrow> s \<in> {''Available'', ''Maintenance'', ''Inactive''}"
      "\<not> sc_int sc (case rb_quantity req of None \<Rightarrow> 1 | Some q \<Rightarrow> q)"
    from post_resources_refused [OF v] show "post_resources js sc req d = (reply 500 (Error ''Server error''), d)" .
  qed
  have c6: "status (fst (post_resources js sc req d)) = 201 \<longrightarrow>
        status (fst (post_resources js sc req (snd (post_resources js sc req d)))) = 409
        \<and> resources (snd (post_resources js sc req (snd (post_resources js sc req d))))
            = resources (snd (post_resources js sc req d))"
    using again by (rule impI)
  show ?thesis
    by (rule conjI [OF c1 conjI [OF c2 conjI [OF c3 conjI [OF c4 conjI [OF c5 c6]]]]])
qed

theorem post_resources_contract_witness:
  "status (fst (post_resources sample_js sample_schema room_a init_db)) = 201
   \<and> map r_kind (resources one_resource) = [''ROOM'']
   \<and> map r_name (resources one_resource) = [''Room A'']
   \<and> map r_quantity (resources one_resource) = [1]
   \<and> map r_status (resources one_resource) = [''Available'']
   \<and> status (fst (post_resources sample_js sample_schema room_a one_resource)) = 409
   \<and> resources (snd (post_resources sample_js sample_schema room_a one_resource))
       = resources one_resource"
proof -
  have f: "rb_kind room_a = Some ''Room'' \<and> ''Room'' \<noteq> [] \<and> rb_name room_a = Some ''Room A''
        \<and> ''Room A'' \<noteq> []
        \<and> (\<forall>q. rb_quantity room_a = Some q \<longrightarrow> 0 \<le> q)
        \<and> (\<forall>s. rb_status room_a = Some s \<longrightarrow> s \<in> {''Available'', ''Maintenance'', ''Inactive''})
        \<and> sc_int sample_schema (case rb_quantity room_a of None \<Rightarrow> 1 | Some q \<Rightarrow> q)"
    by (simp add: room_a_def sample_schema_def)
  have q: "rb_quantity room_a = None" "rb_status room_a = None" by (simp_all add: room_a_def)
  have up: "js_toUpperCase sample_js ''Room'' = ''ROOM''" by code_simp
  have fresh: "\<not> (\<exists>r \<in> set (resources init_db).
                   r_kind r = js_toUpperCase sample_js ''Room'' \<and> r_name r = ''Room A'')"
    by (simp add: init_db_def)
  have empty: "resources init_db = []" by (simp add: init_db_def)
  note t = post_resources_contract [where js = sample_js and sc = sample_schema
      and req = room_a and k = "''Room''" and n = "''Room A''",
      THEN conjunct2, THEN conjunct2, THEN conjunct2]
  from t [of init_db, THEN conjunct1, THEN mp, OF f, THEN conjunct2, THEN mp, OF fresh]
  obtain row where row: "post_resources sample_js sample_schema room_a init_db =
       (reply 201 (ResourceJson (resource_row.truncate row)),
        init_db\<lparr>resources := resources init_db @ [row],
                next_resource_id := next_resource_id init_db + 1\<rparr>)"
      "r_kind row = js_toUpperCase sample_js ''Room''" "r_name row = ''Room A''"
      "r_quantity row = (case rb_quantity room_a of None \<Rightarrow> 1 | Some q \<Rightarrow> q)"
      "r_status row = (case rb_status room_a of None \<Rightarrow> ''Available'' | Some s \<Rightarrow> s)"
    by blast
  have a: "status (fst (post_resources sample_js sample_schema room_a init_db)) = 201"
    unfolding row(1) by (simp add: reply_def)
  have one: "resources one_resource = [row]"
    unfolding one_resource_def row(1) by (simp add: empty)
  have b: "map r_kind (resources one_resource) = [''ROOM'']"
    "map r_name (resources one_resource) = [''Room A'']"
    "map r_quantity (resources one_resource) = [1]"
    "map r_status (resources one_resource) = [''Available'']"
    unfolding one using row(2-5) by (simp_all add: up q)
  have dup: "\<exists>r \<in> set (resources one_resource).
               r_kind r = js_toUpperCase sample_js ''Room'' \<and> r_name r = ''Room A''"
    unfolding one using row(2,3) by simp
  note c = t [of one_resource, THEN conjunct1, THEN mp, OF f, THEN conjunct1, THEN mp, OF dup]
  from a b c [THEN conjunct1] c [THEN conjunct2, THEN conjunct2, THEN conjunct1]
  show ?thesis by simp
qed

text \<open>
  The claim C7 as it is written, that a second resource with the same (kind, name) pair
  is rejected with 409, fails on a second request with a quantity no integer column
  holds: the answer is 500.
\<close>

theorem post_resources_quantity_counterexample:
  "map r_kind (resources one_resource) = [''ROOM'']
   \<and> map r_name (resources one_resource) = [''Room A'']
   \<and> js_toUpperCase sample_js ''Room'' = ''ROOM''
   \<and> rb_name (room_a\<lparr>rb_quantity := Some 1000000000000000000000\<rparr>) = Some ''Room A''
   \<and> status (fst (post_resources sample_js sample_schema
        (room_a\<lparr>rb_quantity := Some 1000000000000000000000\<rparr>) one_resource)) = 500"
  by code_simp

subsection \<open>Resource deletion\<close>

lemma delete_refused:
  "\<not> sc_int sc i \<Longrightarrow>
     delete_resources js sc now (Some i) hard mode d = (reply 500 (Error ''Server error''), d)"
  by (simp add: delete_resources_def server_error_def)

lemma delete_soft:
  assumes "\<not> is_hard js hard mode" "sc_int sc i" "\<exists>r \<in> set (resources d). r_id r = i"
  shows "delete_resources js sc now (Some i) hard mode d =
           (reply 204 NoContent,
            d\<lparr>resources := map (\<lambda>r. if r_id r = i
                 then r\<lparr>r_status := ''Inactive'', r_updated_at := Some now\<rparr> else r)
                 (resources d)\<rparr>)"
  using assms
  by (auto simp: delete_resources_def soft_delete_row_def filter_empty_conv)

lemma delete_hard_in_use:
  assumes "is_hard js hard mode" "sc_int sc i"
    "\<exists>b \<in> set (bookings d). b_resource_id b = i \<and> is_active b"
  shows "delete_resources js sc now (Some i) hard mode d =
           (reply 409 (ErrorMessage ''in_use''
              ''Cannot delete: there are active bookings (REQUEST/ONGOING) for this resource.''),
            d)"
proof -
  from assms(3) have "filter (\<lambda>b. b_resource_id b = i
        \<and> (b_status b = REQUEST \<or> b_status b = ONGOING)) (bookings d) \<noteq> []"
    by (auto simp: filter_empty_conv is_active_def)
  with assms(1,2) show ?thesis
    by (simp add: delete_resources_def Let_def)
qed

lemma no_reference_left:
  assumes "\<not> (\<exists>b \<in> set (bookings d). b_resource_id b = i \<and> is_active b)"
  shows "\<forall>b \<in> set (filter (\<lambda>b. \<not> (b_resource_id b = i \<and> is_terminal b)) (bookings d)).
           b_resource_id b \<noteq> i"
proof
  fix b assume "b \<in> set (filter (\<lambda>b. \<not> (b_resource_id b = i \<and> is_terminal b)) (bookings d))"
  then have b: "b \<in> set (bookings d)" "\<not> (b_resource_id b = i \<and> is_terminal b)" by simp_all
  show "b_resource_id b \<noteq> i"
  proof
    assume "b_resource_id b = i"
    with b assms have "\<not> is_terminal b" "\<not> is_active b" by blast+
    then show False by (cases "b_status b") (simp_all add: is_terminal_def is_active_def)
  qed
qed

lemma delete_hard_free:
  assumes "is_hard js hard mode" "sc_int sc i"
    "\<not> (\<exists>b \<in> set (bookings d). b_resource_id b = i \<and> is_active b)"
  shows "delete_resources js sc now (Some i) hard mode d =
     (if \<exists>r \<in> set (resources d). r_id r = i
      then (reply 204 NoContent,
            d\<lparr>bookings := filter (\<lambda>b. \<not> (b_resource_id b = i \<and> is_terminal b)) (bookings d),
              resources := filter (\<lambda>r. r_id r \<noteq> i) (resources d)\<rparr>)
      else (reply 404 (Error ''not found''), d))"
proof -
  from assms(3) have none: "filter (\<lambda>b. b_resource_id b = i
        \<and> (b_status b = REQUEST \<or> b_status b = ONGOING)) (bookings d) = []"
    by (auto simp: filter_empty_conv is_active_def)
  from no_reference_left [OF assms(3)]
  have gone: "\<not> (\<exists>b \<in> set (filter (\<lambda>b. \<not> (b_resource_id b = i
        \<and> (b_status b = SUCCESS \<or> b_status b = CANCEL))) (bookings d)). b_resource_id b = i)"
    by (auto simp: is_terminal_def)
  have "delete_resources js sc now (Some i) hard mode d =
     (if length (filter (\<lambda>r. r_id r = i) (resources d)) = 0
      then (reply 404 (Error ''not found''), d)
      else (reply 204 NoContent,
            d\<lparr>bookings := filter (\<lambda>b. \<not> (b_resource_id b = i
                 \<and> (b_status b = SUCCESS \<or> b_status b = CANCEL))) (bookings d),
              resources := filter (\<lambda>r. r_id r \<noteq> i) (resources d)\<rparr>))"
    using assms(1,2) none gone
    by (auto simp: delete_resources_def Let_def)
  then show ?thesis
    by (simp add: filter_empty_conv is_terminal_def)
qed

text \<open>
  C8. Deleting a resource whose identifier the integer column holds. Without the flag
  (an empty string stays empty under \<open>toLowerCase\<close> and \<open>trim\<close>) the mode is soft: the
  status of an existing resource becomes Inactive and the bookings table is untouched.
  With the flag the mode is hard: if an active booking (REQUEST or ONGOING) references
  the resource the answer is 409 \<open>in_use\<close> and the store is unchanged; otherwise, for an
  existing resource, the terminal bookings (SUCCESS, CANCEL) that reference it and the
  resource row are all deleted, after which no booking references it. The hard mode is
  all or nothing: when there is no such resource row the answer is 404 and the bookings
  deleted inside the transaction are back, and whenever the answer is not 204 the store
  is as it was.
\<close>

theorem delete_resources_modes:
  "(js_trim js (js_toLowerCase js []) = [] \<longrightarrow> \<not> is_hard js None None)
   \<and> (\<not> is_hard js hard mode \<and> sc_int sc i \<and> (\<exists>r \<in> set (resources d). r_id r = i) \<longrightarrow>
        delete_resources js sc now (Some i) hard mode d =
          (reply 204 NoContent,
           d\<lparr>resources := map (\<lambda>r. if r_id r = i
                then r\<lparr>r_status := ''Inactive'', r_updated_at := Some now\<rparr> else r)
                (resources d)\<rparr>)
        \<and> bookings (snd (delete_resources js sc now (Some i) hard mode d)) = bookings d)
   \<and> (is_hard js hard mode \<and> sc_int sc i \<and> (\<exists>b \<in> set (bookings d). b_resource_id b = i \<and> is_active b) \<longrightarrow>
        status (fst (delete_resources js sc now (Some i) hard mode d)) = 409
        \<and> (\<exists>m. payload (fst (delete_resources js sc now (Some i) hard mode d)) = ErrorMessage ''in_use'' m)
        \<and> snd (delete_resources js sc now (Some i) hard mode d) = d)
   \<and> (is_hard js hard mode \<and> sc_int sc i \<and> \<not> (\<exists>b \<in> set (bookings d). b_resource_id b = i \<and> is_active b)
        \<and> (\<exists>r \<in> set (resources d). r_id r = i) \<longrightarrow>
        delete_resources js sc now (Some i) hard mode d =
          (reply 204 NoContent,
           d\<lparr>bookings := filter (\<lambda>b. \<not> (b_resource_id b = i \<and> is_terminal b)) (bookings d),
             resources := filter (\<lambda>r. r_id r \<noteq> i) (resources d)\<rparr>)
        \<and> (\<forall>b \<in> set (bookings (snd (delete_resources js sc now (Some i) hard mode d))). b_resource_id b \<noteq> i))
   \<and> (is_hard js hard mode \<and> sc_int sc i \<and> \<not> (\<exists>b \<in> set (bookings d). b_resource_id b = i \<and> is_active b)
        \<and> \<not> (\<exists>r \<in> set (resources d). r_id r = i) \<longrightarrow>
        delete_resources js sc now (Some i) hard mode d = (reply 404 (Error ''not found''), d))
   \<and> (is_hard js hard mode \<longrightarrow>
        status (fst (delete_resources js sc now (Some i) hard mode d)) \<noteq> 204 \<and> snd (delete_resources js sc now (Some i) hard mode d) = d
        \<or> status (fst (delete_resources js sc now (Some i) hard mode d)) = 204 \<and> (\<exists>r \<in> set (resources d). r_id r = i)
           \<and> snd (delete_resources js sc now (Some i) hard mode d) =
           d\<lparr>bookings := filter (\<lambda>b. \<not> (b_resource_id b = i \<and> is_terminal b)) (bookings d),
             resources := filter (\<lambda>r. r_id r \<noteq> i) (resources d)\<rparr>)"
proof -
  let ?r = "delete_resources js sc now (Some i) hard mode d"
  let ?active = "\<exists>b \<in> set (bookings d). b_resource_id b = i \<and> is_active b"
  let ?d' = "d\<lparr>bookings := filter (\<lambda>b. \<not> (b_resource_id b = i \<and> is_terminal b)) (bookings d),
             resources := filter (\<lambda>r. r_id r \<noteq> i) (resources d)\<rparr>"
  have c0: "js_trim js (js_toLowerCase js []) = [] \<longrightarrow> \<not> is_hard js None None"
    by (simp add: is_hard_def truthy_str_def)
  have c1: "\<not> is_hard js hard mode \<and> sc_int sc i \<and> (\<exists>r \<in> set (resources d). r_id r = i) \<longrightarrow>
        delete_resources js sc now (Some i) hard mode d =
          (reply 204 NoContent,
           d\<lparr>resources := map (\<lambda>r. if r_id r = i
                then r\<lparr>r_status := ''Inactive'', r_updated_at := Some now\<rparr> else r)
                (resources d)\<rparr>)
        \<and> bookings (snd (delete_resources js sc now (Some i) hard mode d)) = bookings d"
    using delete_soft [of js hard mode sc i d now] by simp
  have c2: "is_hard js hard mode \<and> sc_int sc i \<and> (\<exists>b \<in> set (bookings d). b_resource_id b = i \<and> is_active b) \<longrightarrow>
        status (fst (delete_resources js sc now (Some i) hard mode d)) = 409
        \<and> (\<exists>m. payload (fst (delete_resources js sc now (Some i) hard mode d)) = ErrorMessage ''in_use'' m)
        \<and> snd (delete_resources js sc now (Some i) hard mode d) = d"
    using delete_hard_in_use [of js hard mode sc i d now] by (simp add: reply_def)
  have c3: "is_hard js hard mode \<and> sc_int sc i \<and> \<not> (\<exists>b \<in> set (bookings d). b_resource_id b = i \<and> is_active b)
        \<and> (\<exists>r \<in> set (resources d). r_id r = i) \<longrightarrow>
        delete_resources js sc now (Some i) hard mode d =
          (reply 204 NoContent,
           d\<lparr>bookings := filter (\<lambda>b. \<not> (b_resource_id b = i \<and> is_terminal b)) (bookings d),
             resources := filter (\<lambda>r. r_id r \<noteq> i) (resources d)\<rparr>)
        \<and> (\<forall>b \<in> set (bookings (snd (delete_resources js sc now (Some i) hard mode d))). b_resource_id b \<noteq> i)"
  proof (intro impI; elim conjE)
    assume h: "is_hard js hard mode" "sc_int sc i" "\<not> ?active"
      "\<exists>r \<in> set (resources d). r_id r = i"
    from delete_hard_free [OF h(1-3), of now] h(4)
    have r: "?r = (reply 204 NoContent, ?d')" by simp
    have "bookings ?d' = filter (\<lambda>b. \<not> (b_resource_id b = i \<and> is_terminal b)) (bookings d)"
      by simp
    with no_reference_left [OF h(3)] have "\<forall>b \<in> set (bookings ?d'). b_resource_id b \<noteq> i"
      by metis
    then have "\<forall>b \<in> set (bookings (snd ?r)). b_resource_id b \<noteq> i"
      unfolding r snd_conv .
    with r show "?r = (reply 204 NoContent, ?d')
        \<and> (\<forall>b \<in> set (bookings (snd ?r)). b_resource_id b \<noteq> i)"
      by (rule conjI)
  qed
  have c4: "is_hard js hard mode \<and> sc_int sc i \<and> \<not> (\<exists>b \<in> set (bookings d). b_resource_id b = i \<and> is_active b)
        \<and> \<not> (\<exists>r \<in> set (resources d). r_id r = i) \<longrightarrow>
        delete_resources js sc now (Some i) hard mode d = (reply 404 (Error ''not found''), d)"
  proof (intro impI; elim conjE)
    assume h: "is_hard js hard mode" "sc_int sc i" "\<not> ?active"
      "\<not> (\<exists>r \<in> set (resources d). r_id r = i)"
    from delete_hard_free [OF h(1-3), of now] h(4)
    show "?r = (reply 404 (Error ''not found''), d)" by simp
  qed
  have c5: "is_hard js hard mode \<longrightarrow>
        status (fst (delete_resources js sc now (Some i) hard mode d)) \<noteq> 204 \<and> snd (delete_resources js sc now (Some i) hard mode d) = d
        \<or> status (fst (delete_resources js sc now (Some i) hard mode d)) = 204 \<and> (\<exists>r \<in> set (resources d). r_id r = i)
           \<and> snd (delete_resources js sc now (Some i) hard mode d) =
           d\<lparr>bookings := filter (\<lambda>b. \<not> (b_resource_id b = i \<and> is_terminal b)) (bookings d),
             resources := filter (\<lambda>r. r_id r \<noteq> i) (resources d)\<rparr>"
  proof
    assume h: "is_hard js hard mode"
    show "status (fst ?r) \<noteq> 204 \<and> snd ?r = d
        \<or> status (fst ?r) = 204 \<and> (\<exists>r \<in> set (resources d). r_id r = i) \<and> snd ?r = ?d'"
    proof (cases "sc_int sc i")
      case False
      from delete_refused [OF False, of js now hard mode d]
      have "status (fst ?r) \<noteq> 204 \<and> snd ?r = d" by (simp add: reply_def)
      then show ?thesis by (rule disjI1)
    next
      case fits: True
      show ?thesis
      proof (cases ?active)
        case True
        from delete_hard_in_use [OF h fits True, of now]
        have "status (fst ?r) \<noteq> 204 \<and> snd ?r = d" by (simp add: reply_def)
        then show ?thesis by (rule disjI1)
      next
        case False
        show ?thesis
        proof (cases "\<exists>r \<in> set (resources d). r_id r = i")
          case True
          with delete_hard_free [OF h fits False, of now]
          have "?r = (reply 204 NoContent, ?d')" by simp
          then have "status (fst ?r) = 204" "snd ?r = ?d'"
            by (simp_all only: fst_conv snd_conv reply_def response.simps)
          with True have "status (fst ?r) = 204 \<and> (\<exists>r \<in> set (resources d). r_id r = i) \<and> snd ?r = ?d'"
            by (intro conjI)
          then show ?thesis by (rule disjI2)
        next
          case False
          with delete_hard_free [OF h fits \<open>\<not> ?active\<close>, of now]
          have "?r = (reply 404 (Error ''not found''), d)" by simp
          then have "status (fst ?r) \<noteq> 204 \<and> snd ?r = d" by (simp add: reply_def)
          then show ?thesis by (rule disjI1)
        qed
      qed
    qed
  qed
  show ?thesis
    by (rule conjI [OF c0 conjI [OF c1 conjI [OF c2 conjI [OF c3 conjI [OF c4 c5]]]]])
qed

theorem delete_resources_modes_witness:
  "status (fst (delete_resources sample_js sample_schema 9 (Some 1) None None booked_room)) = 204
   \<and> bookings (snd (delete_resources sample_js sample_schema 9 (Some 1) None None booked_room)) = bookings booked_room
   \<and> map r_status (resources (snd (delete_resources sample_js sample_schema 9 (Some 1) None None booked_room))) = [''Inactive'']
   \<and> status (fst (delete_resources sample_js sample_schema 9 (Some 1) (Some ''true'') None booked_room)) = 409
   \<and> snd (delete_resources sample_js sample_schema 9 (Some 1) (Some ''true'') None booked_room) = booked_room
   \<and> map b_status (bookings settled_room) = [CANCEL]
   \<and> status (fst (delete_resources sample_js sample_schema 9 (Some 1) (Some ''true'') None settled_room)) = 204
   \<and> bookings (snd (delete_resources sample_js sample_schema 9 (Some 1) (Some ''true'') None settled_room)) = []
   \<and> resources (snd (delete_resources sample_js sample_schema 9 (Some 1) (Some ''true'') None settled_room)) = []
   \<and> map b_status (bookings orphan_booking) = [CANCEL]
   \<and> map b_resource_id (bookings orphan_booking) = [7]
   \<and> delete_resources sample_js sample_schema 9 (Some 7) (Some ''true'') None orphan_booking
       = (reply 404 (Error ''not found''), orphan_booking)"
proof -
  have blank: "js_trim sample_js (js_toLowerCase sample_js []) = []" by code_simp
  have hard: "is_hard sample_js (Some ''true'') None" by code_simp
  have fits: "sc_int sample_schema 1" "sc_int sample_schema 7" by code_simp+
  have res: "\<exists>r \<in> set (resources booked_room). r_id r = 1" by code_simp
  have res': "\<exists>r \<in> set (resources settled_room). r_id r = 1" by code_simp
  have none: "\<not> (\<exists>r \<in> set (resources orphan_booking). r_id r = 7)" by code_simp
  have act: "\<exists>b \<in> set (bookings booked_room). b_resource_id b = 1 \<and> is_active b"
    by code_simp
  have free: "\<not> (\<exists>b \<in> set (bookings settled_room). b_resource_id b = 1 \<and> is_active b)"
    by code_simp
  have free': "\<not> (\<exists>b \<in> set (bookings orphan_booking). b_resource_id b = 7 \<and> is_active b)"
    by code_simp
  have gone: "filter (\<lambda>b. \<not> (b_resource_id b = 1 \<and> is_terminal b)) (bookings settled_room) = []"
    by code_simp
  have gone': "filter (\<lambda>r. r_id r \<noteq> 1) (resources settled_room) = []"
    by code_simp
  have inactive: "map r_status (map (\<lambda>r. if r_id r = 1
                then r\<lparr>r_status := ''Inactive'', r_updated_at := Some 9\<rparr> else r)
                (resources booked_room)) = [''Inactive'']"
    by code_simp
  have c0: "map b_status (bookings settled_room) = [CANCEL]" by code_simp
  have o1: "map b_status (bookings orphan_booking) = [CANCEL]" by code_simp
  have o2: "map b_resource_id (bookings orphan_booking) = [7]" by code_simp
  note s = delete_resources_modes [of sample_js None None sample_schema 1 booked_room 9]
  note h = delete_resources_modes [of sample_js "Some ''true''" None sample_schema 1 booked_room 9]
  note f = delete_resources_modes [of sample_js "Some ''true''" None sample_schema 1 settled_room 9]
  note g = delete_resources_modes [of sample_js "Some ''true''" None sample_schema 7 orphan_booking 9]
  note soft = s [THEN conjunct1, THEN mp, OF blank]
  note s' = s [THEN conjunct2, THEN conjunct1, THEN mp, OF conjI [OF soft conjI [OF fits(1) res]]]
  note h' = h [THEN conjunct2, THEN conjunct2, THEN conjunct1, THEN mp,
      OF conjI [OF hard conjI [OF fits(1) act]]]
  note f' = f [THEN conjunct2, THEN conjunct2, THEN conjunct2, THEN conjunct1, THEN mp,
      OF conjI [OF hard conjI [OF fits(1) conjI [OF free res']]]]
  note g' = g [THEN conjunct2, THEN conjunct2, THEN conjunct2, THEN conjunct2, THEN conjunct1,
      THEN mp, OF conjI [OF hard conjI [OF fits(2) conjI [OF free' none]]]]
  have a1: "status (fst (delete_resources sample_js sample_schema 9 (Some 1) None None booked_room)) = 204"
    using s' [THEN conjunct1] by (simp add: reply_def)
  have a2: "bookings (snd (delete_resources sample_js sample_schema 9 (Some 1) None None booked_room)) = bookings booked_room"
    using s' [THEN conjunct2] .
  have a3: "map r_status (resources (snd (delete_resources sample_js sample_schema 9 (Some 1) None None booked_room))) = [''Inactive'']"
    using s' [THEN conjunct1] inactive by simp
  have b1: "status (fst (delete_resources sample_js sample_schema 9 (Some 1) (Some ''true'') None booked_room)) = 409"
    using h' [THEN conjunct1] .
  have b2: "snd (delete_resources sample_js sample_schema 9 (Some 1) (Some ''true'') None booked_room) = booked_room"
    using h' [THEN conjunct2, THEN conjunct2] .
  have c1: "status (fst (delete_resources sample_js sample_schema 9 (Some 1) (Some ''true'') None settled_room)) = 204"
    using f' [THEN conjunct1] by (simp add: reply_def)
  have c2: "bookings (snd (delete_resources sample_js sample_schema 9 (Some 1) (Some ''true'') None settled_room)) = []"
    using f' [THEN conjunct1] gone by simp
  have c3: "resources (snd (delete_resources sample_js sample_schema 9 (Some 1) (Some ''true'') None settled_room)) = []"
    using f' [THEN conjunct1] gone' by simp
  show ?thesis
    by (rule conjI [OF a1 conjI [OF a2 conjI [OF a3 conjI [OF b1 conjI [OF b2 conjI [OF c0
          conjI [OF c1 conjI [OF c2 conjI [OF c3 conjI [OF o1 conjI [OF o2 g']]]]]]]]]]])
qed

subsection \<open>Resource update\<close>


lemma update_resource_result:
  "(\<exists>c. update_resource sc now i p d = Inl c)
   \<or> update_resource sc now i p d = Inr ([], d)
   \<or> (\<exists>row rest. update_resource sc now i p d =
         Inr (row # rest,
              d\<lparr>resources :=
                  map (\<lambda>r. if r_id r = i then apply_patch now p r else r) (resources d)\<rparr>))"
proof (cases "\<not> sc_int sc i
    \<or> (case pb_quantity p of None \<Rightarrow> False | Some q \<Rightarrow> \<not> sc_int sc q)")
  case True
  then show ?thesis by (simp add: update_resource_def)
next
  case taken: False
  show ?thesis
  proof (cases "filter (\<lambda>r. r_id r = i) (resources d)")
    case Nil
    then have none: "\<forall>r \<in> set (resources d). r_id r \<noteq> i" by (simp add: filter_empty_conv)
    then have "map (\<lambda>r. if r_id r = i then apply_patch now p r else r) (resources d)
                 = resources d"
      by (simp add: map_idI)
    with Nil none taken have "update_resource sc now i p d = Inr ([], d)"
      by (simp add: update_resource_def)
    then show ?thesis by simp
  next
    case (Cons row rest)
    with taken show ?thesis by (simp add: update_resource_def)
  qed
qed

lemma patch_resources_result:
  "snd (patch_resources sc now idp p d) = d \<and> status (fst (patch_resources sc now idp p d)) \<noteq> 200
   \<or> (\<exists>i. idp = Some i \<and> status (fst (patch_resources sc now idp p d)) = 200
        \<and> snd (patch_resources sc now idp p d) =
            d\<lparr>resources :=
                map (\<lambda>r. if r_id r = i then apply_patch now p r else r) (resources d)\<rparr>)"
proof (cases idp)
  case None
  then show ?thesis by (simp add: patch_resources_def reply_def)
next
  case (Some i)
  from update_resource_result [of sc now i p d] Some show ?thesis
    by (auto simp: patch_resources_def reply_def resource_error_def server_error_def
        split: if_splits)
qed







subsection \<open>The auth guard\<close>

lemma guarded_no_session:
  "guarded [''ADMIN'', ''STAFF''] None h d = (reply 401 (Error ''Unauthorized: Please login''), d)"
  by (simp add: guarded_def requireAuth_def)

lemma guarded_wrong_role:
  "u_role u \<notin> {''ADMIN'', ''STAFF''} \<Longrightarrow>
     guarded [''ADMIN'', ''STAFF''] (Some u) h d =
       (reply 403 (Error ''Forbidden: Insufficient permissions''), d)"
  by (simp add: guarded_def requireAuth_def)

lemma guarded_cases:
  "guarded roles sess h d = h d \<or> snd (guarded roles sess h d) = d"
  by (simp add: guarded_def split: option.split)

text \<open>
  C4 (as amended). The routes that create, update and delete resources and the routes
  that start, finish and cancel bookings answer 401 to a request with no session and 403
  to a session whose role is neither ADMIN nor STAFF, and leave the store as it was.
  Booking creation is registered without the guard: its answer does not depend on the
  session. The two read routes answer 200 without a session.
\<close>

theorem guard_on_mutations:
  "(req \<in> {PostResources rb, PatchResources idp p, DeleteResources idp hard mode,
            StartBooking i, FinishBooking i, CancelBooking i} \<longrightarrow>
      route js sc now None req d = (reply 401 (Error ''Unauthorized: Please login''), d)
      \<and> (u_role u \<notin> {''ADMIN'', ''STAFF''} \<longrightarrow>
           route js sc now (Some u) req d =
             (reply 403 (Error ''Forbidden: Insufficient permissions''), d)))
   \<and> route js sc now sess (PostBookings bb) d = post_bookings js sc now bb d
   \<and> status (fst (route js sc now None (GetResources kind) d)) = 200
   \<and> snd (route js sc now None (GetResources kind) d) = d
   \<and> status (fst (route js sc now None GetBookings d)) = 200
   \<and> snd (route js sc now None GetBookings d) = d"
proof -
  have g: "route js sc now None req d = (reply 401 (Error ''Unauthorized: Please login''), d)
      \<and> (u_role u \<notin> {''ADMIN'', ''STAFF''} \<longrightarrow>
           route js sc now (Some u) req d =
             (reply 403 (Error ''Forbidden: Insufficient permissions''), d))"
    if "req \<in> {PostResources rb, PatchResources idp p, DeleteResources idp hard mode,
            StartBooking i, FinishBooking i, CancelBooking i}"
  proof -
    from that consider "req = PostResources rb" | "req = PatchResources idp p"
      | "req = DeleteResources idp hard mode" | "req = StartBooking i"
      | "req = FinishBooking i" | "req = CancelBooking i"
      by blast
    note shape = this
    have no: "route js sc now None req d = (reply 401 (Error ''Unauthorized: Please login''), d)"
      using shape by cases (simp_all only: route.simps guarded_no_session)
    have wr: "route js sc now (Some u) req d =
             (reply 403 (Error ''Forbidden: Insufficient permissions''), d)"
      if "u_role u \<notin> {''ADMIN'', ''STAFF''}"
      using shape by cases (simp_all only: route.simps guarded_wrong_role [OF that])
    from no wr show ?thesis by (intro conjI impI)
  qed
  have r: "status (fst (route js sc now None (GetResources kind) d)) = 200
     \<and> snd (route js sc now None (GetResources kind) d) = d
     \<and> status (fst (route js sc now None GetBookings d)) = 200
     \<and> snd (route js sc now None GetBookings d) = d"
    by (simp add: get_resources_def get_bookings_def reply_def)
  have b: "route js sc now sess (PostBookings bb) d = post_bookings js sc now bb d" by simp
  from g have g': "req \<in> {PostResources rb, PatchResources idp p, DeleteResources idp hard mode,
            StartBooking i, FinishBooking i, CancelBooking i} \<longrightarrow>
      route js sc now None req d = (reply 401 (Error ''Unauthorized: Please login''), d)
      \<and> (u_role u \<notin> {''ADMIN'', ''STAFF''} \<longrightarrow>
           route js sc now (Some u) req d =
             (reply 403 (Error ''Forbidden: Insufficient permissions''), d))"
    by (rule impI)
  show ?thesis by (rule conjI [OF g' conjI [OF b r]])
qed

theorem guard_on_mutations_witness:
  "route sample_js sample_schema 9 None (CancelBooking (Some 1)) one_booking =
     (reply 401 (Error ''Unauthorized: Please login''), one_booking)
   \<and> route sample_js sample_schema 9 (Some visitor) (CancelBooking (Some 1)) one_booking =
     (reply 403 (Error ''Forbidden: Insufficient permissions''), one_booking)"
proof -
  have m: "CancelBooking (Some 1) \<in> {PostResources room_a, PatchResources None (rename_to []),
            DeleteResources None None None, StartBooking (Some 1), FinishBooking (Some 1),
            CancelBooking (Some 1)}"
    by simp
  have v: "u_role visitor \<notin> {''ADMIN'', ''STAFF''}" by (simp add: visitor_def)
  note t = guard_on_mutations [where req = "CancelBooking (Some 1)" and rb = room_a
      and idp = None and p = "rename_to []" and hard = None and mode = None and i = "Some 1"
      and js = sample_js and sc = sample_schema and now = 9 and d = one_booking
      and u = visitor, THEN conjunct1, THEN mp, OF m]
  from t [THEN conjunct1] t [THEN conjunct2, THEN mp, OF v] show ?thesis by (rule conjI)
qed

text \<open>
  The claim C4 as it is written lists booking creation among the guarded operations:
  a request with no session creates a booking.
\<close>

theorem post_bookings_unguarded_counterexample:
  "status (fst (route sample_js sample_schema 1 None (PostBookings (room_body 600 660)) init_db)) = 201
   \<and> bookings init_db = []
   \<and> map b_id (bookings (snd (route sample_js sample_schema 1 None (PostBookings (room_body 600 660)) init_db))) = [1]"
  by code_simp

subsection \<open>What each statement does to the bookings table\<close>

lemma post_resources_bookings:
  "bookings (snd (post_resources js sc req d)) = bookings d"
  by (simp add: post_resources_def insert_resource_def Let_def split: sum.split)

lemma patch_resources_bookings:
  "bookings (snd (patch_resources sc now idp p d)) = bookings d"
  using patch_resources_result [of sc now idp p d] by auto

lemma delete_resources_bookings:
  "bookings (snd (delete_resources js sc now idp hard mode d)) = bookings d
   \<or> (\<exists>i. idp = Some i \<and> is_hard js hard mode
        \<and> bookings (snd (delete_resources js sc now idp hard mode d)) =
            filter (\<lambda>b. \<not> (b_resource_id b = i \<and> is_terminal b)) (bookings d))"
  by (cases idp) (auto simp: delete_resources_def Let_def is_terminal_def)

lemma bookings_check_passed:
  assumes "bookings_check js sc req d = Inr v"
  shows "\<forall>c \<in> set (bookings d).
     \<not> conflict_row (bv_kind v) (bv_resource_id v) (bv_start_dt v) (bv_end_dt v) c"
proof -
  from assms obtain s e where
    v: "bv_kind v = js_toUpperCase js (the (bb_kind req))"
       "bv_resource_id v = the (bb_resource_id req)" "bv_start_dt v = s" "bv_end_dt v = e"
    and q: "conflict_query sc (js_toUpperCase js (the (bb_kind req)))
              (the (bb_resource_id req)) s e d = Inr []"
    by (auto simp: bookings_check_def Let_def
        split: if_splits option.splits sum.splits list.splits)
  from q have "take 1 (filter (conflict_row (js_toUpperCase js (the (bb_kind req)))
      (the (bb_resource_id req)) s e) (bookings d)) = []"
    by (simp add: conflict_query_def split: if_splits)
  then have "filter (conflict_row (js_toUpperCase js (the (bb_kind req)))
      (the (bb_resource_id req)) s e) (bookings d) = []"
    by (simp add: take_Suc split: list.splits)
  with v show ?thesis by (simp add: filter_empty_conv)
qed

lemma bookings_insert_bookings:
  "bookings (snd (bookings_insert sc now v d)) = bookings d
   \<or> (\<exists>row. bookings (snd (bookings_insert sc now v d)) = bookings d @ [row]
         \<and> b_status row = REQUEST \<and> b_kind row = bv_kind v
         \<and> b_resource_id row = bv_resource_id v
         \<and> b_start_dt row = bv_start_dt v \<and> b_end_dt row = bv_end_dt v)"
  by (simp add: bookings_insert_def insert_booking_def Let_def)

lemma post_bookings_bookings:
  "bookings (snd (post_bookings js sc now req d)) = bookings d
   \<or> (\<exists>row. bookings (snd (post_bookings js sc now req d)) = bookings d @ [row]
         \<and> b_status row = REQUEST
         \<and> (\<forall>c \<in> set (bookings d). \<not> conflict_row (b_kind row) (b_resource_id row)
               (b_start_dt row) (b_end_dt row) c))"
proof (cases "bookings_check js sc req d")
  case (Inl r)
  then show ?thesis by (simp add: post_bookings_def)
next
  case (Inr v)
  from bookings_check_passed [OF Inr] bookings_insert_bookings [of sc now v d] Inr
  show ?thesis by (auto simp: post_bookings_def)
qed

lemma update_bookings_bookings:
  "bookings (snd (update_bookings sc f idp d)) = bookings d
   \<or> (\<exists>i. idp = Some i
        \<and> bookings (snd (update_bookings sc f idp d)) =
            map (\<lambda>b. if b_id b = i then f b else b) (bookings d))"
  by (simp add: update_bookings_def split: option.split)

lemma transition_reply_store: "snd (transition_reply upd) = snd upd"
  by (cases upd) (simp add: transition_reply_def split: sum.split list.split)

lemma guarded_kept:
  assumes "b \<in> set (bookings d)" and "b \<in> set (bookings (snd (h d)))"
  shows "b \<in> set (bookings (snd (guarded roles sess h d)))"
  using assms guarded_cases [of roles sess h d] by auto

subsection \<open>Terminal bookings\<close>

lemma kept_by_map:
  "b \<in> set bs \<Longrightarrow> b_id b \<noteq> i \<Longrightarrow> b \<in> set (map (\<lambda>b. if b_id b = i then f b else b) bs)"
  by (induction bs) auto

lemma kept_by_update:
  assumes "b \<in> set (bookings d)" and "idp \<noteq> Some (b_id b)"
  shows "b \<in> set (bookings (snd (transition_reply (update_bookings sc f idp d))))"
  using update_bookings_bookings [of sc f idp d] assms kept_by_map [of b "bookings d" _ f]
  by (auto simp: transition_reply_store)

lemma kept_by_route:
  assumes "b \<in> set (bookings d)" and "is_terminal b"
    and "\<not> addresses js (Handle sess req) b"
  shows "b \<in> set (bookings (snd (route js sc now sess req d)))"
proof (cases req)
  case (GetResources kind)
  with assms(1) show ?thesis by (simp add: get_resources_def)
next
  case (PostResources rb)
  with assms(1) show ?thesis
    by (simp add: guarded_kept post_resources_bookings)
next
  case (PatchResources idp p)
  with assms(1) show ?thesis
    by (simp add: guarded_kept patch_resources_bookings)
next
  case (DeleteResources idp hard mode)
  with assms(3) have other: "\<not> (is_hard js hard mode \<and> idp = Some (b_resource_id b))"
    by simp
  from delete_resources_bookings [of js sc now idp hard mode d] other assms(1)
  have "b \<in> set (bookings (snd (delete_resources js sc now idp hard mode d)))" by auto
  with DeleteResources assms(1) show ?thesis by (simp add: guarded_kept)
next
  case GetBookings
  with assms(1) show ?thesis by (simp add: get_bookings_def)
next
  case (PostBookings bb)
  with assms(1) post_bookings_bookings [of js sc now bb d] show ?thesis by auto
next
  case (StartBooking idp)
  with assms(3) have "idp \<noteq> Some (b_id b)" by simp
  from kept_by_update [OF assms(1) this]
  have "b \<in> set (bookings (snd (bookings_start sc now idp d)))"
    by (simp add: bookings_start_def)
  with StartBooking assms(1) show ?thesis by (simp add: guarded_kept)
next
  case (FinishBooking idp)
  with assms(3) have "idp \<noteq> Some (b_id b)" by simp
  from kept_by_update [OF assms(1) this]
  have "b \<in> set (bookings (snd (bookings_finish sc now idp d)))"
    by (simp add: bookings_finish_def)
  with FinishBooking assms(1) show ?thesis by (simp add: guarded_kept)
next
  case (CancelBooking idp)
  with assms(3) have "idp \<noteq> Some (b_id b)" by simp
  from kept_by_update [OF assms(1) this]
  have "b \<in> set (bookings (snd (bookings_cancel sc now idp d)))"
    by (simp add: bookings_cancel_def)
  with CancelBooking assms(1) show ?thesis by (simp add: guarded_kept)
qed

text \<open>
  C3 (as amended). A booking in a terminal state (SUCCESS or CANCEL) is still in the
  table, unchanged, after every statement of every request other than a start, finish or
  cancel addressed to its own identifier and a hard delete of the resource it references.
  The two statements of a booking creation are taken one by one, so the property holds
  whatever runs between them.
\<close>

theorem terminal_kept:
  assumes "b \<in> set (bookings (fst w))" and "is_terminal b" and "\<not> addresses js ev b"
  shows "b \<in> set (bookings (fst (step js sc now ev w)))"
proof -
  obtain d waiting where w: "w = (d, waiting)" by (cases w)
  with assms(1) have b: "b \<in> set (bookings d)" by simp
  show ?thesis
  proof (cases ev)
    case (Handle sess req)
    with assms(3) have "\<not> addresses js (Handle sess req) b" by simp
    from kept_by_route [OF b assms(2) this] Handle w show ?thesis by simp
  next
    case (Check t req)
    with b w show ?thesis by (simp split: sum.split)
  next
    case (Insert t)
    show ?thesis
    proof (cases "map_of waiting t")
      case None
      with Insert b w show ?thesis by simp
    next
      case (Some v)
      from bookings_insert_bookings [of sc now v d] b
      have "b \<in> set (bookings (snd (bookings_insert sc now v d)))" by auto
      with Insert Some w show ?thesis by simp
    qed
  qed
qed

theorem terminal_kept_witness:
  "map b_id (bookings two_bookings) = [1, 2]
   \<and> map b_status (bookings two_bookings) = [CANCEL, REQUEST]
   \<and> map b_status (bookings (fst (step sample_js sample_schema 9
         (Handle (Some admin) (FinishBooking (Some 2))) (two_bookings, [])))) = [CANCEL, SUCCESS]
   \<and> hd (bookings two_bookings)
       \<in> set (bookings (fst (step sample_js sample_schema 9
                (Handle (Some admin) (FinishBooking (Some 2))) (two_bookings, []))))"
proof -
  have ids: "map b_id (bookings two_bookings) = [1, 2]" by code_simp
  have st: "map b_status (bookings two_bookings) = [CANCEL, REQUEST]" by code_simp
  have st': "map b_status (bookings (fst (step sample_js sample_schema 9
         (Handle (Some admin) (FinishBooking (Some 2))) (two_bookings, [])))) = [CANCEL, SUCCESS]"
    by code_simp
  have m: "hd (bookings two_bookings) \<in> set (bookings (fst (two_bookings, [])))"
    by code_simp
  have t: "is_terminal (hd (bookings two_bookings))" by code_simp
  have a: "\<not> addresses sample_js (Handle (Some admin) (FinishBooking (Some 2)))
               (hd (bookings two_bookings))"
    by code_simp
  from terminal_kept [OF m t a, of sample_schema 9]
  have k: "hd (bookings two_bookings)
       \<in> set (bookings (fst (step sample_js sample_schema 9
                (Handle (Some admin) (FinishBooking (Some 2))) (two_bookings, []))))" .
  show ?thesis by (rule conjI [OF ids conjI [OF st conjI [OF st' k]]])
qed

text \<open>
  The claim C3 as it is written fails on a transition addressed to the terminal booking
  itself: started by an administrator, a cancelled booking becomes ONGOING and gets a
  \<open>started_at\<close> stamp.
\<close>

theorem start_of_cancelled_counterexample:
  "map b_id (bookings settled_room) = [1]
   \<and> map b_status (bookings settled_room) = [CANCEL]
   \<and> map b_started_at (bookings settled_room) = [None]
   \<and> status (fst (route sample_js sample_schema 9 (Some admin) (StartBooking (Some 1))
                    settled_room)) = 200
   \<and> map b_status (bookings (snd (route sample_js sample_schema 9 (Some admin)
                                     (StartBooking (Some 1)) settled_room))) = [ONGOING]
   \<and> map b_started_at (bookings (snd (route sample_js sample_schema 9 (Some admin)
                                     (StartBooking (Some 1)) settled_room))) = [Some 9]"
  by code_simp

subsection \<open>The overlap invariant\<close>

lemma clash_sym: "clash b c = clash c b"
  by (auto simp: clash_def overlap_def)

lemma no_overlap_pairs:
  "no_overlap bs =
     (\<forall>i < length bs. \<forall>j < length bs. i \<noteq> j \<longrightarrow> \<not> clash (bs ! i) (bs ! j))"
proof
  assume "no_overlap bs"
  then have lt: "\<And>i j. i < j \<Longrightarrow> j < length bs \<Longrightarrow> \<not> clash (bs ! i) (bs ! j)"
    by (simp add: no_overlap_def sorted_wrt_iff_nth_less)
  show "\<forall>i < length bs. \<forall>j < length bs. i \<noteq> j \<longrightarrow> \<not> clash (bs ! i) (bs ! j)"
  proof (intro allI impI)
    fix i j assume "i < length bs" "j < length bs" "i \<noteq> j"
    then consider "i < j" | "j < i" by linarith
    then show "\<not> clash (bs ! i) (bs ! j)"
    proof cases
      case 1
      with \<open>j < length bs\<close> lt show ?thesis by blast
    next
      case 2
      with \<open>i < length bs\<close> lt have "\<not> clash (bs ! j) (bs ! i)" by blast
      then show ?thesis by (simp add: clash_sym)
    qed
  qed
next
  assume "\<forall>i < length bs. \<forall>j < length bs. i \<noteq> j \<longrightarrow> \<not> clash (bs ! i) (bs ! j)"
  then show "no_overlap bs"
    by (simp add: no_overlap_def sorted_wrt_iff_nth_less)
qed

lemma no_overlap_filter: "no_overlap bs \<Longrightarrow> no_overlap (filter P bs)"
  by (simp add: no_overlap_def sorted_wrt_filter)

lemma no_overlap_snoc:
  "no_overlap (bs @ [row]) = (no_overlap bs \<and> (\<forall>c \<in> set bs. \<not> clash c row))"
  by (auto simp: no_overlap_def sorted_wrt_append)

lemma no_overlap_map:
  assumes "no_overlap bs"
    and "\<And>b c. b \<in> set bs \<Longrightarrow> c \<in> set bs \<Longrightarrow> clash (f b) (f c) \<Longrightarrow> clash b c"
  shows "no_overlap (map f bs)"
proof -
  from assms(1) have "sorted_wrt (\<lambda>b c. \<not> clash b c) bs" by (simp add: no_overlap_def)
  then have "sorted_wrt (\<lambda>b c. \<not> clash (f b) (f c)) bs"
    by (rule sorted_wrt_mono_rel [rotated]) (use assms(2) in blast)
  then show ?thesis by (simp add: no_overlap_def sorted_wrt_map)
qed

lemma conflict_row_clash:
  assumes "\<not> conflict_row (b_kind row) (b_resource_id row) (b_start_dt row) (b_end_dt row) c"
  shows "\<not> clash c row"
  using assms by (auto simp: conflict_row_def clash_def overlap_def is_active_def)

lemma deactivating_map:
  assumes "no_overlap bs"
    and "\<And>b. b_kind (f b) = b_kind b \<and> b_resource_id (f b) = b_resource_id b
           \<and> b_start_dt (f b) = b_start_dt b \<and> b_end_dt (f b) = b_end_dt b"
    and "\<And>b. b \<in> set bs \<Longrightarrow> b_id b = i \<Longrightarrow> is_active (f b) \<Longrightarrow> is_active b"
  shows "no_overlap (map (\<lambda>b. if b_id b = i then f b else b) bs)"
proof (rule no_overlap_map [OF assms(1)])
  fix b c
  assume b: "b \<in> set bs" and c: "c \<in> set bs"
    and cl: "clash (if b_id b = i then f b else b) (if b_id c = i then f c else c)"
  let ?b = "if b_id b = i then f b else b" and ?c = "if b_id c = i then f c else c"
  have same: "b_kind ?b = b_kind b" "b_resource_id ?b = b_resource_id b"
    "b_start_dt ?b = b_start_dt b" "b_end_dt ?b = b_end_dt b"
    "b_kind ?c = b_kind c" "b_resource_id ?c = b_resource_id c"
    "b_start_dt ?c = b_start_dt c" "b_end_dt ?c = b_end_dt c"
    using assms(2) by simp_all
  have act: "is_active ?b \<Longrightarrow> is_active b" "is_active ?c \<Longrightarrow> is_active c"
    using assms(3) b c by (auto split: if_splits)
  from cl have "is_active ?b" "is_active ?c" "b_kind ?b = b_kind ?c"
    "b_resource_id ?b = b_resource_id ?c" "overlap ?b ?c"
    unfolding clash_def by blast+
  with same act show "clash b c"
    unfolding clash_def overlap_def by simp
qed

lemma row_frames:
  "b_kind (start_row now b) = b_kind b \<and> b_resource_id (start_row now b) = b_resource_id b
   \<and> b_start_dt (start_row now b) = b_start_dt b \<and> b_end_dt (start_row now b) = b_end_dt b"
  "b_kind (finish_row now b) = b_kind b \<and> b_resource_id (finish_row now b) = b_resource_id b
   \<and> b_start_dt (finish_row now b) = b_start_dt b \<and> b_end_dt (finish_row now b) = b_end_dt b"
  "b_kind (cancel_row now b) = b_kind b \<and> b_resource_id (cancel_row now b) = b_resource_id b
   \<and> b_start_dt (cancel_row now b) = b_start_dt b \<and> b_end_dt (cancel_row now b) = b_end_dt b"
  "\<not> is_active (finish_row now b)" "\<not> is_active (cancel_row now b)"
  by (simp_all add: start_row_def finish_row_def cancel_row_def is_active_def)

lemma update_no_overlap:
  assumes "no_overlap (bookings d)"
    and "\<And>b. b_kind (f b) = b_kind b \<and> b_resource_id (f b) = b_resource_id b
           \<and> b_start_dt (f b) = b_start_dt b \<and> b_end_dt (f b) = b_end_dt b"
    and "\<And>b. b \<in> set (bookings d) \<Longrightarrow> Some (b_id b) = idp \<Longrightarrow> is_active (f b) \<Longrightarrow>
           is_active b"
  shows "no_overlap (bookings (snd (transition_reply (update_bookings sc f idp d))))"
proof -
  from update_bookings_bookings [of sc f idp d]
  consider "bookings (snd (update_bookings sc f idp d)) = bookings d"
    | i where "idp = Some i"
        "bookings (snd (update_bookings sc f idp d)) =
           map (\<lambda>b. if b_id b = i then f b else b) (bookings d)"
    by blast
  then show ?thesis
  proof cases
    case 1
    with assms(1) show ?thesis by (simp add: transition_reply_store)
  next
    case 2
    from 2(1) assms(3)
    have "\<And>b. b \<in> set (bookings d) \<Longrightarrow> b_id b = i \<Longrightarrow> is_active (f b) \<Longrightarrow> is_active b"
      by simp
    from deactivating_map [OF assms(1) assms(2) this] 2(2)
    show ?thesis by (simp add: transition_reply_store)
  qed
qed

lemma guarded_no_overlap:
  assumes "no_overlap (bookings d)" and "no_overlap (bookings (snd (h d)))"
  shows "no_overlap (bookings (snd (guarded roles sess h d)))"
  using assms guarded_cases [of roles sess h d] by auto

lemma insert_no_overlap:
  assumes "no_overlap (bookings d)"
    and "\<forall>c \<in> set (bookings d).
           \<not> conflict_row (bv_kind v) (bv_resource_id v) (bv_start_dt v) (bv_end_dt v) c"
  shows "no_overlap (bookings (snd (bookings_insert sc now v d)))"
proof -
  from bookings_insert_bookings [of sc now v d]
  consider "bookings (snd (bookings_insert sc now v d)) = bookings d"
    | row where "bookings (snd (bookings_insert sc now v d)) = bookings d @ [row]"
        "b_kind row = bv_kind v" "b_resource_id row = bv_resource_id v"
        "b_start_dt row = bv_start_dt v" "b_end_dt row = bv_end_dt v"
    by blast
  then show ?thesis
  proof cases
    case 1
    with assms(1) show ?thesis by simp
  next
    case 2
    from assms(2) 2(2-5) have "\<forall>c \<in> set (bookings d). \<not> clash c row"
      by (simp add: conflict_row_clash)
    with assms(1) 2(1) show ?thesis by (simp add: no_overlap_snoc)
  qed
qed

lemma route_no_overlap:
  assumes "no_overlap (bookings d)" and "calm (Handle sess req) (d, waiting)"
  shows "no_overlap (bookings (snd (route js sc now sess req d)))"
proof (cases req)
  case (GetResources kind)
  with assms(1) show ?thesis by (simp add: get_resources_def)
next
  case (PostResources rb)
  with assms(1) show ?thesis by (simp add: guarded_no_overlap post_resources_bookings)
next
  case (PatchResources idp p)
  with assms(1) show ?thesis by (simp add: guarded_no_overlap patch_resources_bookings)
next
  case (DeleteResources idp hard mode)
  from delete_resources_bookings [of js sc now idp hard mode d] assms(1)
  have "no_overlap (bookings (snd (delete_resources js sc now idp hard mode d)))"
    by (auto simp: no_overlap_filter)
  with DeleteResources assms(1) show ?thesis by (simp add: guarded_no_overlap)
next
  case GetBookings
  with assms(1) show ?thesis by (simp add: get_bookings_def)
next
  case (PostBookings bb)
  show ?thesis
  proof (cases "bookings_check js sc bb d")
    case (Inl r)
    with PostBookings assms(1) show ?thesis by (simp add: post_bookings_def)
  next
    case (Inr v)
    from insert_no_overlap [OF assms(1) bookings_check_passed [OF Inr]] PostBookings Inr
    show ?thesis by (simp add: post_bookings_def)
  qed
next
  case (StartBooking idp)
  with assms(2)
  have act: "\<And>b. b \<in> set (bookings d) \<Longrightarrow> Some (b_id b) = idp \<Longrightarrow> is_active b"
    by simp
  from update_no_overlap [OF assms(1) row_frames(1)] act
  have "no_overlap (bookings (snd (bookings_start sc now idp d)))"
    by (simp add: bookings_start_def)
  with StartBooking assms(1) show ?thesis by (simp add: guarded_no_overlap)
next
  case (FinishBooking idp)
  from update_no_overlap [OF assms(1) row_frames(2)] row_frames(4)
  have "no_overlap (bookings (snd (bookings_finish sc now idp d)))"
    by (simp add: bookings_finish_def)
  with FinishBooking assms(1) show ?thesis by (simp add: guarded_no_overlap)
next
  case (CancelBooking idp)
  from update_no_overlap [OF assms(1) row_frames(3)] row_frames(5)
  have "no_overlap (bookings (snd (bookings_cancel sc now idp d)))"
    by (simp add: bookings_cancel_def)
  with CancelBooking assms(1) show ?thesis by (simp add: guarded_no_overlap)
qed

lemma step_no_overlap:
  assumes "no_overlap (bookings (fst w))" and "calm ev w"
  shows "no_overlap (bookings (fst (step js sc now ev w)))"
proof -
  obtain d waiting where w: "w = (d, waiting)" by (cases w)
  with assms(1) have inv: "no_overlap (bookings d)" by simp
  show ?thesis
  proof (cases ev)
    case (Handle sess req)
    with assms(2) w have "calm (Handle sess req) (d, waiting)" by simp
    from route_no_overlap [OF inv this] Handle w show ?thesis by simp
  next
    case (Check t req)
    with inv w show ?thesis by (simp split: sum.split)
  next
    case (Insert t)
    show ?thesis
    proof (cases "map_of waiting t")
      case None
      with Insert inv w show ?thesis by simp
    next
      case (Some v)
      with assms(2) Insert w
      have "\<forall>c \<in> set (bookings d).
           \<not> conflict_row (bv_kind v) (bv_resource_id v) (bv_start_dt v) (bv_end_dt v) c"
        by simp
      from insert_no_overlap [OF inv this] Insert Some w show ?thesis by simp
    qed
  qed
qed

lemma run_no_overlap:
  "no_overlap (bookings (fst w)) \<Longrightarrow> calm_run js sc evs w \<Longrightarrow>
     no_overlap (bookings (fst (run js sc evs w)))"
proof (induction evs arbitrary: w)
  case Nil
  then show ?case by simp
next
  case (Cons x evs)
  obtain now ev where x: "x = (now, ev)" by (cases x)
  with Cons.prems have c: "calm ev w"
    and rest: "calm_run js sc evs (step js sc now ev w)" by simp_all
  from step_no_overlap [OF Cons.prems(1) c]
  have "no_overlap (bookings (fst (step js sc now ev w)))" .
  from Cons.IH [OF this rest] x show ?case by simp
qed

text \<open>
  C2 (as amended). From a store in which no two bookings at different positions of the
  table are both active (REQUEST or ONGOING), for the same kind and resource, with
  overlapping windows, every run of statements ends in such a store, provided that
  (a) every \<open>INSERT\<close> of a booking creation runs while the conflict query of that creation
  would still come back empty, as it does when no statement of another request runs
  between the two, and (b) every start is addressed to bookings that are still in
  REQUEST or ONGOING. Finish, cancel, resource creation, update and deletion and the read
  routes need no condition.
\<close>

theorem no_overlap_preserved:
  assumes "no_overlap (bookings (fst w))" and "calm_run js sc evs w"
  shows "no_overlap (bookings (fst (run js sc evs w)))
     \<and> (\<forall>i < length (bookings (fst (run js sc evs w))).
        \<forall>j < length (bookings (fst (run js sc evs w))).
          i \<noteq> j
          \<and> b_kind (bookings (fst (run js sc evs w)) ! i)
              = b_kind (bookings (fst (run js sc evs w)) ! j)
          \<and> b_resource_id (bookings (fst (run js sc evs w)) ! i)
              = b_resource_id (bookings (fst (run js sc evs w)) ! j)
          \<and> is_active (bookings (fst (run js sc evs w)) ! i)
          \<and> is_active (bookings (fst (run js sc evs w)) ! j)
          \<longrightarrow> b_end_dt (bookings (fst (run js sc evs w)) ! i)
                \<le> b_start_dt (bookings (fst (run js sc evs w)) ! j)
              \<or> b_end_dt (bookings (fst (run js sc evs w)) ! j)
                \<le> b_start_dt (bookings (fst (run js sc evs w)) ! i))"
proof -
  let ?bs = "bookings (fst (run js sc evs w))"
  from run_no_overlap [OF assms] have inv: "no_overlap ?bs" .
  then have "\<forall>i < length ?bs. \<forall>j < length ?bs. i \<noteq> j \<longrightarrow> \<not> clash (?bs ! i) (?bs ! j)"
    by (simp only: no_overlap_pairs)
  then have "\<forall>i < length ?bs. \<forall>j < length ?bs.
          i \<noteq> j \<and> b_kind (?bs ! i) = b_kind (?bs ! j)
          \<and> b_resource_id (?bs ! i) = b_resource_id (?bs ! j)
          \<and> is_active (?bs ! i) \<and> is_active (?bs ! j)
          \<longrightarrow> b_end_dt (?bs ! i) \<le> b_start_dt (?bs ! j)
              \<or> b_end_dt (?bs ! j) \<le> b_start_dt (?bs ! i)"
    unfolding clash_def overlap_def by (metis linorder_le_cases)
  with inv show ?thesis by (rule conjI)
qed

theorem no_overlap_preserved_witness:
  "map b_status (bookings (fst (run sample_js sample_schema busy_run (init_db, []))))
     = [ONGOING, REQUEST]
   \<and> map b_start_dt (bookings (fst (run sample_js sample_schema busy_run (init_db, []))))
     = [600, 660]
   \<and> no_overlap (bookings (fst (run sample_js sample_schema busy_run (init_db, []))))"
proof -
  have st: "map b_status (bookings (fst (run sample_js sample_schema busy_run (init_db, []))))
     = [ONGOING, REQUEST]"
    by code_simp
  have sd: "map b_start_dt (bookings (fst (run sample_js sample_schema busy_run (init_db, []))))
     = [600, 660]"
    by code_simp
  have i: "no_overlap (bookings (fst (init_db, [])))" by code_simp
  have g: "calm_run sample_js sample_schema busy_run (init_db, [])" by code_simp
  from no_overlap_preserved [OF i g, THEN conjunct1]
  have n: "no_overlap (bookings (fst (run sample_js sample_schema busy_run (init_db, []))))" .
  show ?thesis by (rule conjI [OF st conjI [OF sd n]])
qed

text \<open>
  The claim C2 as it is written, for every reachable state and every operation, fails on
  the start of a terminal booking: after a booking is cancelled and its window booked
  again, starting the cancelled booking leaves two active bookings of the same kind and
  resource over the same window.
\<close>

theorem restart_run_counterexample:
  "map b_id (bookings (fst (run sample_js sample_schema restart_run (init_db, [])))) = [1, 2]
   \<and> map b_status (bookings (fst (run sample_js sample_schema restart_run (init_db, []))))
       = [ONGOING, REQUEST]
   \<and> map b_kind (bookings (fst (run sample_js sample_schema restart_run (init_db, []))))
       = [''ROOM'', ''ROOM'']
   \<and> map b_resource_id (bookings (fst (run sample_js sample_schema restart_run (init_db, []))))
       = [7, 7]
   \<and> map b_start_dt (bookings (fst (run sample_js sample_schema restart_run (init_db, []))))
       = [600, 600]
   \<and> map b_end_dt (bookings (fst (run sample_js sample_schema restart_run (init_db, []))))
       = [660, 660]
   \<and> \<not> no_overlap (bookings (fst (run sample_js sample_schema restart_run (init_db, []))))"
  by code_simp

text \<open>
  It fails as well when two creations are interleaved: both conflict queries run before
  either \<open>INSERT\<close>, both come back empty, and both rows are inserted, with overlapping
  windows. Condition (a) does not hold of this run.
\<close>

lemma race_run_overlap:
  "map b_status (bookings (fst (run sample_js sample_schema race_run (init_db, []))))
     = [REQUEST, REQUEST]
   \<and> map b_resource_id (bookings (fst (run sample_js sample_schema race_run (init_db, []))))
       = [7, 7]
   \<and> map b_start_dt (bookings (fst (run sample_js sample_schema race_run (init_db, []))))
       = [600, 630]
   \<and> map b_end_dt (bookings (fst (run sample_js sample_schema race_run (init_db, []))))
       = [660, 690]
   \<and> \<not> calm_run sample_js sample_schema race_run (init_db, [])
   \<and> \<not> no_overlap (bookings (fst (run sample_js sample_schema race_run (init_db, []))))"
  by code_simp

end
